theory Spec2Isabelle
  imports Complex_Main "HOL-Library.Signed_Division" "HOL-Library.Sublist"
begin

section \<open>Data model of the Groove music player\<close>

text \<open>
  The player is the JavaScript class \<open>MusicPlayer\<close>. The repository holds two variants of
  it: \<^verbatim>\<open>src/js/app.js\<close> (synchronous \<open>playSong\<close>, snapshot resumption) and
  \<^verbatim>\<open>src/unnamed/part_001\<close> (asynchronous \<open>playSong\<close> with a one-slot audio cache).
  The library operations (likes, playlists, persistence) are the same text in both.

  Objects of the catalog are records. Record fields carry a short prefix where two
  objects of the source use the same key (\<open>id\<close>, \<open>name\<close>, \<open>songs\<close>, \<open>currentTime\<close>,
  \<open>isPlaying\<close>, \<open>volume\<close>), since field names are global constants here.
  Equality of songs is equality of their fields.
\<close>

record Song =
  s_id :: string
  title :: string
  artist :: string
  coverArt :: string
  audioSrc :: string

record Playlist =
  p_id :: string
  p_name :: string
  p_songs :: "string list"

text \<open>The object written under the key \<open>groovePlaybackState\<close> by \<open>savePlaybackState\<close>.\<close>

record PlaybackState =
  saved_songId :: string
  saved_currentTime :: real
  saved_isPlaying :: bool
  saved_timestamp :: int
  saved_volume :: real

text \<open>
  The object written under \<open>grooveLastPlayState\<close> by the \<open>play\<close> and \<open>pause\<close> listeners
  of app.js; \<open>currentSong?.id\<close> is absent when there is no current song.
\<close>

record LastPlayState =
  last_songId :: "string option"
  last_currentTime :: real
  last_isPlaying :: bool
  last_timestamp :: int

text \<open>The object \<open>{id, url}\<close> written under \<open>grooveTempSongCache\<close> (part_001 only).\<close>

record TempSongCache =
  cache_id :: string
  cache_url :: string

text \<open>
  \<open>localStorage\<close> holds one text per key. What the code does with a text depends only on
  what \<open>getItem\<close> and \<open>JSON.parse\<close> make of it, so a key is modelled by that:
  \<^item> \<open>Missing\<close>: \<open>getItem\<close> returns \<open>null\<close> or the empty text (both are falsy);
  \<^item> \<open>Malformed\<close>: a non-empty text on which \<open>JSON.parse\<close> throws \<open>SyntaxError\<close>
    (for instance the one-character text \<^verbatim>\<open>{\<close>);
  \<^item> \<open>Stored v\<close>: a text that \<open>JSON.parse\<close> turns into \<open>v\<close>; what
    \<open>JSON.stringify v\<close> wrote.
\<close>

datatype 'a item = Missing | Malformed | Stored 'a

record LocalStorage =
  grooveLikedSongs :: "Song list item"
  groovePlaylists :: "Playlist list item"
  groovePlaybackState :: "PlaybackState item"
  grooveLastPlayState :: "LastPlayState item"
  grooveTempSongCache :: "TempSongCache item"

text \<open>
  The fields of the platform's audio element that the controller reads and writes, and
  \<open>allowedToPlay\<close>: whether the platform, by its autoplay policy, lets the element start
  playback at this moment. The controller cannot write it; a user gesture on the page
  sets it.
\<close>

record Audio =
  src :: string
  paused :: bool
  currentTime :: real
  volume :: real
  allowedToPlay :: bool

record MusicPlayer =
  songs :: "Song list"
  filteredSongs :: "Song list"
  likedSongs :: "Song list"
  playlists :: "Playlist list"
  currentSong :: "Song option"
  currentPlaylist :: "Song list"
  currentIndex :: int
  isPlaying :: bool
  songsLoaded :: bool
  audio :: Audio
  localStorage :: LocalStorage

datatype js_error = SyntaxError | TypeError

section \<open>Array and number primitives of the platform\<close>

text \<open>
  \<open>Array.prototype.find\<close> is \<^const>\<open>List.find\<close>, \<open>some\<close> is \<^const>\<open>list_ex\<close>,
  \<open>filter\<close> is \<^const>\<open>filter\<close>, \<open>includes\<close> is membership and \<open>push\<close> appends at the
  end. \<open>findIndex\<close> returns the first position where the predicate holds, and \<open>-1\<close>
  when there is none.
\<close>

fun findIndex :: "('a \<Rightarrow> bool) \<Rightarrow> 'a list \<Rightarrow> int" where
  "findIndex P [] = -1"
| "findIndex P (x # xs) =
     (if P x then 0 else (let i = findIndex P xs in if i < 0 then -1 else i + 1))"

text \<open>\<open>xs[i]\<close>: the element at position \<open>i\<close>, \<open>undefined\<close> (here \<open>None\<close>) out of range.\<close>

definition at_index :: "'a list \<Rightarrow> int \<Rightarrow> 'a option" where
  "at_index xs i = (if 0 \<le> i \<and> i < int (length xs) then Some (xs ! nat i) else None)"

text \<open>
  A method that finds an object in an array and then mutates it (\<open>playlist.songs.push\<close>)
  changes the first element that satisfies the predicate, in place.
\<close>

fun update_first :: "('a \<Rightarrow> bool) \<Rightarrow> ('a \<Rightarrow> 'a) \<Rightarrow> 'a list \<Rightarrow> 'a list" where
  "update_first P f [] = []"
| "update_first P f (x # xs) = (if P x then f x # xs else x # update_first P f xs)"

text \<open>
  \<open>Number.prototype.toString\<close> on an integer: its decimal digits, after a minus sign when
  it is negative.
\<close>

fun digits :: "nat \<Rightarrow> string" where
  "digits n =
     (if n < 10 then [char_of (48 + n)]
      else digits (n div 10) @ [char_of (48 + n mod 10)])"

declare digits.simps [simp del]

definition toString :: "int \<Rightarrow> string" where
  "toString i = (if i < 0 then CHR ''-'' # digits (nat (- i)) else digits (nat i))"

section \<open>Library state: likes and playlists\<close>

text \<open>
  \<open>saveData\<close> writes both collections. Rendering (\<open>render\<close>, \<open>updateLikeButton\<close>,
  \<open>showToast\<close>, \<open>showError\<close>) only projects the state onto the page and is left out.
\<close>

definition saveData :: "MusicPlayer \<Rightarrow> MusicPlayer" where
  "saveData st =
     st\<lparr>localStorage := (localStorage st)
           \<lparr>grooveLikedSongs := Stored (likedSongs st),
            groovePlaylists := Stored (playlists st)\<rparr>\<rparr>"

definition toggleSongLike :: "string \<Rightarrow> MusicPlayer \<Rightarrow> MusicPlayer" where
  "toggleSongLike songId st =
     (case find (\<lambda>s. s_id s = songId) (songs st) of
        None \<Rightarrow> st
      | Some song \<Rightarrow>
          (let isLiked = list_ex (\<lambda>s. s_id s = songId) (likedSongs st) in
           saveData
             (if isLiked
              then st\<lparr>likedSongs := filter (\<lambda>s. s_id s \<noteq> songId) (likedSongs st)\<rparr>
              else st\<lparr>likedSongs := likedSongs st @ [song]\<rparr>)))"

text \<open>
  \<open>createPlaylist\<close> reads the name from the input field (\<open>input\<close>) and the clock
  (\<open>now\<close>, the value of \<open>Date.now()\<close>). \<open>String.prototype.trim\<close> and \<open>toLowerCase\<close>
  are the platform's and are parameters. The method returns nothing; the result names the
  path it took: the early return on an empty name, the early return after the duplicate
  notice, or the creation.
\<close>

datatype create_result = Created | EmptyName | DuplicateName

definition createPlaylist ::
  "(string \<Rightarrow> string) \<Rightarrow> (string \<Rightarrow> string) \<Rightarrow> int \<Rightarrow> string \<Rightarrow> MusicPlayer
     \<Rightarrow> create_result \<times> MusicPlayer" where
  "createPlaylist trim toLowerCase now input st =
     (let name = trim input in
      if name = [] then (EmptyName, st)
      else if list_ex (\<lambda>p. toLowerCase (p_name p) = toLowerCase name) (playlists st)
      then (DuplicateName, st)
      else (Created,
            saveData (st\<lparr>playlists := playlists st @
                        [\<lparr>p_id = toString now, p_name = name, p_songs = []\<rparr>]\<rparr>)))"

definition deletePlaylist :: "string \<Rightarrow> MusicPlayer \<Rightarrow> MusicPlayer" where
  "deletePlaylist playlistId st =
     saveData (st\<lparr>playlists := filter (\<lambda>p. p_id p \<noteq> playlistId) (playlists st)\<rparr>)"

definition addToPlaylist :: "string \<Rightarrow> string \<Rightarrow> MusicPlayer \<Rightarrow> MusicPlayer" where
  "addToPlaylist playlistId songId st =
     (case (find (\<lambda>p. p_id p = playlistId) (playlists st),
            find (\<lambda>s. s_id s = songId) (songs st)) of
        (Some playlist, Some song) \<Rightarrow>
          (if songId \<notin> set (p_songs playlist)
           then saveData (st\<lparr>playlists :=
                  update_first (\<lambda>p. p_id p = playlistId)
                    (\<lambda>p. p\<lparr>p_songs := p_songs p @ [songId]\<rparr>) (playlists st)\<rparr>)
           else st)
      | _ \<Rightarrow> st)"

definition removeFromPlaylist :: "string \<Rightarrow> string \<Rightarrow> MusicPlayer \<Rightarrow> MusicPlayer" where
  "removeFromPlaylist playlistId songId st =
     (case (find (\<lambda>p. p_id p = playlistId) (playlists st),
            find (\<lambda>s. s_id s = songId) (songs st)) of
        (Some playlist, Some song) \<Rightarrow>
          saveData (st\<lparr>playlists :=
            update_first (\<lambda>p. p_id p = playlistId)
              (\<lambda>p. p\<lparr>p_songs := filter (\<lambda>s. s \<noteq> songId) (p_songs p)\<rparr>) (playlists st)\<rparr>)
      | _ \<Rightarrow> st)"

section \<open>Start-up\<close>

text \<open>
  The constructor reads both collections with
  \<^verbatim>\<open>JSON.parse(localStorage.getItem(key) || "[]")\<close>, outside any \<open>try\<close>: a missing key
  gives the empty array, an exception of \<open>JSON.parse\<close> leaves the constructor.
  \<open>new Audio()\<close> is paused, at time 0, at full volume, without a source; the page has
  seen no user gesture yet.
\<close>

definition parse_or_empty :: "'a list item \<Rightarrow> js_error + 'a list" where
  "parse_or_empty it =
     (case it of Missing \<Rightarrow> Inr [] | Malformed \<Rightarrow> Inl SyntaxError | Stored v \<Rightarrow> Inr v)"

definition new_Audio :: Audio where
  "new_Audio = \<lparr>src = [], paused = True, currentTime = 0, volume = 1,
                allowedToPlay = False\<rparr>"

definition MusicPlayer_constructor :: "LocalStorage \<Rightarrow> js_error + MusicPlayer" where
  "MusicPlayer_constructor ls =
     (case parse_or_empty (grooveLikedSongs ls) of
        Inl e \<Rightarrow> Inl e
      | Inr liked \<Rightarrow>
          (case parse_or_empty (groovePlaylists ls) of
             Inl e \<Rightarrow> Inl e
           | Inr pls \<Rightarrow>
               Inr \<lparr>songs = [], filteredSongs = [], likedSongs = liked, playlists = pls,
                    currentSong = None, currentPlaylist = [], currentIndex = 0,
                    isPlaying = False, songsLoaded = False, audio = new_Audio,
                    localStorage = ls\<rparr>))"

text \<open>
  \<open>loadSongs\<close> receives what the fetch of \<^verbatim>\<open>songs.json\<close> produced (\<open>None\<close> for any
  failure); the continuation registered by the constructor of app.js then sets
  \<open>songsLoaded\<close>.
\<close>

definition loadSongs :: "Song list option \<Rightarrow> MusicPlayer \<Rightarrow> MusicPlayer" where
  "loadSongs fetched st =
     (case fetched of
        Some data \<Rightarrow> st\<lparr>songs := data, filteredSongs := data\<rparr>
      | None \<Rightarrow> st\<lparr>songs := [], filteredSongs := []\<rparr>)"

definition loadSongs_then :: "MusicPlayer \<Rightarrow> MusicPlayer" where
  "loadSongs_then st = st\<lparr>songsLoaded := True\<rparr>"

text \<open>
  \<open>handleSearch\<close>: \<open>String.prototype.includes\<close> is the contiguous-sublist test; \<open>trim\<close>
  and \<open>toLowerCase\<close> are parameters as in \<open>createPlaylist\<close>.
\<close>

definition handleSearch ::
  "(string \<Rightarrow> string) \<Rightarrow> (string \<Rightarrow> string) \<Rightarrow> string \<Rightarrow> MusicPlayer \<Rightarrow> MusicPlayer" where
  "handleSearch trim toLowerCase query st =
     (if trim query = [] then st\<lparr>filteredSongs := songs st\<rparr>
      else st\<lparr>filteredSongs :=
             filter (\<lambda>song. sublist (toLowerCase query) (toLowerCase (title song)) \<or>
                             sublist (toLowerCase query) (toLowerCase (artist song)))
               (songs st)\<rparr>)"

section \<open>Playback controller (app.js)\<close>

text \<open>
  \<open>audio.play()\<close>: when the platform allows it, the element stops being paused at once;
  the \<open>play\<close> event and the settling of the returned promise follow in later turns of
  the event loop. When the platform does not allow it, the element stays as it is and the
  promise is rejected with \<open>NotAllowedError\<close>.
\<close>

definition audio_play :: "Audio \<Rightarrow> Audio" where
  "audio_play a = (if allowedToPlay a then a\<lparr>paused := False\<rparr> else a)"

text \<open>
  Assigning \<open>audio.src\<close> makes the element load the new resource: it is paused and its
  position is back at 0.
\<close>

definition audio_set_src :: "string \<Rightarrow> Audio \<Rightarrow> Audio" where
  "audio_set_src url a = a\<lparr>src := url, paused := True, currentTime := 0\<rparr>"

text \<open>A click or key press on the page: from then on the platform lets the page play.\<close>

definition user_gesture :: "MusicPlayer \<Rightarrow> MusicPlayer" where
  "user_gesture st = st\<lparr>audio := (audio st)\<lparr>allowedToPlay := True\<rparr>\<rparr>"

text \<open>
  The listeners that \<open>setupAudio\<close> registers for the element's \<open>play\<close> and \<open>pause\<close>
  events, at clock reading \<open>now\<close>. (part_001 has the same listeners without the write to
  storage.)
\<close>

definition audio_onplay :: "int \<Rightarrow> MusicPlayer \<Rightarrow> MusicPlayer" where
  "audio_onplay now st =
     st\<lparr>isPlaying := True,
        localStorage := (localStorage st)\<lparr>grooveLastPlayState := Stored
          \<lparr>last_songId = map_option s_id (currentSong st),
           last_currentTime = currentTime (audio st),
           last_isPlaying = True,
           last_timestamp = now\<rparr>\<rparr>\<rparr>"

definition audio_onpause :: "int \<Rightarrow> MusicPlayer \<Rightarrow> MusicPlayer" where
  "audio_onpause now st =
     st\<lparr>isPlaying := False,
        localStorage := (localStorage st)\<lparr>grooveLastPlayState := Stored
          \<lparr>last_songId = map_option s_id (currentSong st),
           last_currentTime = currentTime (audio st),
           last_isPlaying = False,
           last_timestamp = now\<rparr>\<rparr>\<rparr>"

text \<open>
  \<open>playSong\<close> of app.js pauses the element, rewinds it, assigns the source and calls
  \<open>audio.play()\<close>; the promise settles later (\<open>playSong_settled\<close>).
\<close>

definition activeView :: "MusicPlayer \<Rightarrow> Song list" where
  "activeView st = (if filteredSongs st \<noteq> [] then filteredSongs st else songs st)"

definition playSong :: "Song \<Rightarrow> MusicPlayer \<Rightarrow> MusicPlayer" where
  "playSong song st =
     st\<lparr>currentSong := Some song,
        currentPlaylist := activeView st,
        currentIndex := findIndex (\<lambda>s. s_id s = s_id song) (activeView st),
        audio := audio_play
                   (audio_set_src (audioSrc song)
                      ((audio st)\<lparr>paused := True, currentTime := 0\<rparr>))\<rparr>"

definition savePlaybackState :: "int \<Rightarrow> MusicPlayer \<Rightarrow> MusicPlayer" where
  "savePlaybackState now st =
     (case currentSong st of
        None \<Rightarrow> st
      | Some cur \<Rightarrow>
          st\<lparr>localStorage := (localStorage st)\<lparr>groovePlaybackState := Stored
               \<lparr>saved_songId = s_id cur,
                saved_currentTime = currentTime (audio st),
                saved_isPlaying = (isPlaying st \<and> \<not> paused (audio st)),
                saved_timestamp = now,
                saved_volume = volume (audio st)\<rparr>\<rparr>\<rparr>)"

datatype play_outcome = Started | NotAllowedError | OtherError

definition playSong_settled :: "int \<Rightarrow> play_outcome \<Rightarrow> MusicPlayer \<Rightarrow> MusicPlayer" where
  "playSong_settled now outcome st =
     (case outcome of Started \<Rightarrow> savePlaybackState now st | _ \<Rightarrow> st)"

text \<open>
  \<open>%\<close> is the remainder of the truncating division, \<^const>\<open>signed_modulo\<close>. Handing
  \<open>undefined\<close> to \<open>playSong\<close> (an index out of range) ends in a \<open>TypeError\<close> at
  \<open>song.audioSrc\<close> or before.
\<close>

definition previousSong :: "MusicPlayer \<Rightarrow> js_error + MusicPlayer" where
  "previousSong st =
     (if currentPlaylist st = [] then Inr st
      else
        (let n = int (length (currentPlaylist st));
             st1 = st\<lparr>currentIndex := (currentIndex st - 1 + n) smod n\<rparr>
         in case at_index (currentPlaylist st1) (currentIndex st1) of
              None \<Rightarrow> Inl TypeError
            | Some song \<Rightarrow> Inr (playSong song st1)))"

definition nextSong :: "MusicPlayer \<Rightarrow> js_error + MusicPlayer" where
  "nextSong st =
     (if currentPlaylist st = [] then Inr st
      else
        (let n = int (length (currentPlaylist st));
             st1 = st\<lparr>currentIndex := (currentIndex st + 1) smod n\<rparr>
         in case at_index (currentPlaylist st1) (currentIndex st1) of
              None \<Rightarrow> Inl TypeError
            | Some song \<Rightarrow> Inr (playSong song st1)))"

text \<open>Running an operation \<open>k\<close> times in a row; an exception ends the run.\<close>

fun repeated :: "nat \<Rightarrow> (MusicPlayer \<Rightarrow> js_error + MusicPlayer) \<Rightarrow> MusicPlayer
    \<Rightarrow> js_error + MusicPlayer" where
  "repeated 0 f st = Inr st"
| "repeated (Suc k) f st = (case f st of Inl e \<Rightarrow> Inl e | Inr st' \<Rightarrow> repeated k f st')"

text \<open>
  The invariant of the playback session: when there is a current song, the current index
  is a position of the current playlist and the song at that position is the current song.
\<close>

definition session_invariant :: "MusicPlayer \<Rightarrow> bool" where
  "session_invariant st =
     (case currentSong st of
        None \<Rightarrow> True
      | Some cur \<Rightarrow> at_index (currentPlaylist st) (currentIndex st) = Some cur)"

text \<open>
  The situation right after a song of the visible list was played and before the next
  search: the current playlist is not empty and is the active view, the ids in it are
  pairwise distinct, and the current index is a position of it.
\<close>

definition ring_ready :: "MusicPlayer \<Rightarrow> bool" where
  "ring_ready st \<longleftrightarrow>
     currentPlaylist st \<noteq> [] \<and> currentPlaylist st = activeView st \<and>
     distinct (map s_id (currentPlaylist st)) \<and>
     0 \<le> currentIndex st \<and> currentIndex st < int (length (currentPlaylist st))"

section \<open>Session bridge: resumption from the snapshot (app.js)\<close>

text \<open>
  \<open>resumePlaybackIfNeeded\<close> at clock reading \<open>now\<close>. The result names what the method asks
  of the audio element: nothing; loading the snapshot's song, with a one-shot
  \<open>loadedmetadata\<close> handler registered for the saved position (\<open>handleLoadedMetadata\<close>);
  or \<open>play()\<close> on the current song. The whole body stands in a \<open>try\<close>: a \<open>JSON.parse\<close>
  exception is caught and only logged, and so is the exception of the volume setter for a
  value outside the range from 0 to 1, which is raised after the current song and the
  source were assigned and before the handler is registered.
  \<open>state.volume || 1\<close> replaces a volume of 0 by 1.
\<close>

datatype resume_action = NoResume | LoadAndPlay Song real | PlayCurrent

definition resumePlaybackIfNeeded :: "int \<Rightarrow> MusicPlayer \<Rightarrow> resume_action \<times> MusicPlayer" where
  "resumePlaybackIfNeeded now st =
     (if \<not> songsLoaded st \<or> songs st = [] then (NoResume, st)
      else
        (case groovePlaybackState (localStorage st) of
           Missing \<Rightarrow> (NoResume, st)
         | Malformed \<Rightarrow> (NoResume, st)
         | Stored state \<Rightarrow>
             (let timeSinceLastSave = now - saved_timestamp state in
              if timeSinceLastSave < 300000 \<and> saved_isPlaying state then
                (case find (\<lambda>s. s_id s = saved_songId state) (songs st) of
                   Some song \<Rightarrow>
                     (if (case currentSong st of None \<Rightarrow> True
                          | Some cur \<Rightarrow> s_id cur \<noteq> s_id song)
                      then
                        (let st1 = st\<lparr>currentSong := Some song,
                                      audio := audio_set_src (audioSrc song) (audio st)\<rparr>;
                             v = (if saved_volume state = 0 then 1 else saved_volume state)
                         in if 0 \<le> v \<and> v \<le> 1
                            then (LoadAndPlay song (saved_currentTime state),
                                  st1\<lparr>audio := (audio st1)\<lparr>volume := v\<rparr>\<rparr>)
                            else (NoResume, st1))
                      else if currentSong st \<noteq> None \<and> paused (audio st) \<and> isPlaying st
                      then (PlayCurrent, st\<lparr>audio := audio_play (audio st)\<rparr>)
                      else (NoResume, st))
                 | None \<Rightarrow>
                     (if currentSong st \<noteq> None \<and> paused (audio st) \<and> isPlaying st
                      then (PlayCurrent, st\<lparr>audio := audio_play (audio st)\<rparr>)
                      else (NoResume, st)))
              else (NoResume, st))))"

text \<open>
  The handler that the result \<open>LoadAndPlay song savedTime\<close> stands for, run when the
  metadata of the new source is loaded and the duration is known: it seeks to
  \<open>Math.min(state.currentTime, this.audio.duration)\<close> and calls \<open>play()\<close>.
\<close>

definition handleLoadedMetadata :: "real \<Rightarrow> real \<Rightarrow> MusicPlayer \<Rightarrow> MusicPlayer" where
  "handleLoadedMetadata savedTime duration st =
     st\<lparr>audio := audio_play ((audio st)\<lparr>currentTime := min savedTime duration\<rparr>)\<rparr>"

text \<open>
  \<open>handleWindowFocus\<close> returns at once while the catalog is not loaded; otherwise it
  schedules \<open>resumePlaybackIfNeeded\<close> (100 ms later; \<open>now\<close> is the clock when it runs).
\<close>

definition handleWindowFocus :: "int \<Rightarrow> MusicPlayer \<Rightarrow> resume_action \<times> MusicPlayer" where
  "handleWindowFocus now st =
     (if \<not> songsLoaded st then (NoResume, st) else resumePlaybackIfNeeded now st)"

section \<open>Playback controller with the one-slot cache (part_001)\<close>

text \<open>
  The \<open>async playSong\<close> of part_001 runs in two pieces. \<open>playSong_async_begin\<close> is the
  code up to \<open>await fetch(song.audioSrc)\<close>: on a cache hit (or when parsing the cache
  entry throws, which the \<open>catch\<close> block answers with the song's own URL) it assigns the
  source, calls \<open>play()\<close> and is done (\<open>False\<close>); otherwise the call is suspended
  (\<open>True\<close>).
  \<open>playSong_async_fetched\<close> is the code after the awaits, run when the fetch of that call
  completes: with the object URL of the blob, or through the \<open>catch\<close> block when the
  fetch, the status check or the blob failed; both assign the source and call \<open>play()\<close>.
\<close>

definition playSong_async_begin :: "Song \<Rightarrow> MusicPlayer \<Rightarrow> MusicPlayer \<times> bool" where
  "playSong_async_begin song st =
     (let st1 = st\<lparr>currentSong := Some song,
                   currentPlaylist := activeView st,
                   currentIndex := findIndex (\<lambda>s. s_id s = s_id song) (activeView st)\<rparr>
      in case grooveTempSongCache (localStorage st1) of
           Missing \<Rightarrow> (st1, True)
         | Malformed \<Rightarrow>
             (st1\<lparr>audio := audio_play (audio_set_src (audioSrc song) (audio st1))\<rparr>, False)
         | Stored c \<Rightarrow>
             (if cache_id c = s_id song
              then (st1\<lparr>audio := audio_play (audio_set_src (cache_url c) (audio st1))\<rparr>,
                    False)
              else (st1, True)))"

datatype fetch_result = Fetched string | FetchFailed

definition playSong_async_fetched :: "Song \<Rightarrow> fetch_result \<Rightarrow> MusicPlayer \<Rightarrow> MusicPlayer" where
  "playSong_async_fetched song r st =
     (case r of
        Fetched objectUrl \<Rightarrow>
          st\<lparr>localStorage := (localStorage st)
                \<lparr>grooveTempSongCache := Stored \<lparr>cache_id = s_id song, cache_url = objectUrl\<rparr>\<rparr>,
             audio := audio_play (audio_set_src objectUrl (audio st))\<rparr>
      | FetchFailed \<Rightarrow>
          st\<lparr>audio := audio_play (audio_set_src (audioSrc song) (audio st))\<rparr>)"

text \<open>
  The event loop runs one handler at a time. A session is the player with the calls of
  \<open>playSong\<close> that are suspended at their fetch; a fetch can only complete for a call that
  is suspended.
\<close>

datatype event = PlaySong Song | FetchDone Song fetch_result

fun step :: "MusicPlayer \<times> Song list \<Rightarrow> event \<Rightarrow> MusicPlayer \<times> Song list" where
  "step (st, pending) (PlaySong song) =
     (case playSong_async_begin song st of
        (st', waiting) \<Rightarrow> (st', if waiting then pending @ [song] else pending))"
| "step (st, pending) (FetchDone song r) =
     (if song \<in> set pending then (playSong_async_fetched song r st, remove1 song pending)
      else (st, pending))"

definition run :: "event list \<Rightarrow> MusicPlayer \<Rightarrow> MusicPlayer \<times> Song list" where
  "run evs st = foldl step (st, []) evs"

section \<open>Sequences of calls\<close>

text \<open>
  A sequence of \<open>createPlaylist\<close> calls, each with the clock reading and the content of the
  input field at the time of the call.
\<close>

fun createPlaylists ::
  "(string \<Rightarrow> string) \<Rightarrow> (string \<Rightarrow> string) \<Rightarrow> (int \<times> string) list \<Rightarrow> MusicPlayer
     \<Rightarrow> MusicPlayer" where
  "createPlaylists trim toLowerCase [] st = st"
| "createPlaylists trim toLowerCase ((now, input) # calls) st =
     createPlaylists trim toLowerCase calls
       (snd (createPlaylist trim toLowerCase now input st))"

section \<open>Example states\<close>

text \<open>
  What \<open>toLowerCase\<close> and \<open>trim\<close> do on ASCII text: the letters A to Z are mapped to a to
  z; tab, line feed, vertical tab, form feed, carriage return and space are stripped from
  both ends. The examples use them in place of the platform's functions.
\<close>

definition ascii_toLowerCase :: "string \<Rightarrow> string" where
  "ascii_toLowerCase s =
     map (\<lambda>c. let n = (of_char c :: nat) in
               if 65 \<le> n \<and> n \<le> 90 then char_of (n + 32) else c) s"

definition ascii_trim :: "string \<Rightarrow> string" where
  "ascii_trim s =
     (let blank = (\<lambda>c. (of_char c :: nat) \<in> {9, 10, 11, 12, 13, 32})
      in rev (dropWhile blank (rev (dropWhile blank s))))"


definition song_A :: Song where
  "song_A = \<lparr>s_id = ''a'', title = ''alpha'', artist = ''ann'', coverArt = ''a.png'',
              audioSrc = ''a.mp3''\<rparr>"

definition song_B :: Song where
  "song_B = \<lparr>s_id = ''b'', title = ''beta'', artist = ''bob'', coverArt = ''b.png'',
              audioSrc = ''b.mp3''\<rparr>"

definition song_C :: Song where
  "song_C = \<lparr>s_id = ''c'', title = ''gamma'', artist = ''cy'', coverArt = ''c.png'',
              audioSrc = ''c.mp3''\<rparr>"

definition empty_storage :: LocalStorage where
  "empty_storage = \<lparr>grooveLikedSongs = Missing, groovePlaylists = Missing,
                     groovePlaybackState = Missing, grooveLastPlayState = Missing,
                     grooveTempSongCache = Missing\<rparr>"

text \<open>The player after the constructor ran on \<open>ls\<close> and the catalog \<open>cat\<close> was loaded.\<close>

definition loaded_player :: "Song list \<Rightarrow> LocalStorage \<Rightarrow> MusicPlayer" where
  "loaded_player cat ls =
     \<lparr>songs = cat, filteredSongs = cat, likedSongs = [], playlists = [],
      currentSong = None, currentPlaylist = [], currentIndex = 0,
      isPlaying = False, songsLoaded = True, audio = new_Audio, localStorage = ls\<rparr>"

text \<open>
  A library with one liked song and one playlist that holds the id of \<open>song_B\<close> and an id
  (\<open>zz\<close>) that is not in the catalog any more.
\<close>

definition library_player :: MusicPlayer where
  "library_player =
     (loaded_player [song_A, song_B] empty_storage)
       \<lparr>likedSongs := [song_A],
        playlists := [\<lparr>p_id = ''1'', p_name = ''Road'', p_songs = [''b'', ''zz'']\<rparr>]\<rparr>"

text \<open>
  The catalog of three songs after \<open>song_B\<close> was played from the full list and the search
  box was then set to \<open>gamma\<close>: the view shows \<open>song_C\<close> only, the current playlist is
  still the full list.
\<close>

definition searched_player :: MusicPlayer where
  "searched_player =
     handleSearch ascii_trim ascii_toLowerCase ''gamma''
       (playSong song_B (loaded_player [song_A, song_B, song_C] empty_storage))"

text \<open>
  A snapshot of the song with the given id, written while it was playing at clock reading
  1700000000000, and a storage that holds nothing else.
\<close>

definition recent_snapshot :: "string \<Rightarrow> PlaybackState" where
  "recent_snapshot songId =
     \<lparr>saved_songId = songId, saved_currentTime = 12, saved_isPlaying = True,
      saved_timestamp = 1700000000000, saved_volume = 1\<rparr>"

definition snapshot_storage :: "string \<Rightarrow> LocalStorage" where
  "snapshot_storage songId =
     empty_storage\<lparr>groovePlaybackState := Stored (recent_snapshot songId)\<rparr>"

section \<open>Facts about the primitives\<close>

lemma saveData_likedSongs [simp]: "likedSongs (saveData st) = likedSongs st"
  by (simp add: saveData_def)

lemma saveData_playlists [simp]: "playlists (saveData st) = playlists st"
  by (simp add: saveData_def)

lemma saveData_songs [simp]: "songs (saveData st) = songs st"
  by (simp add: saveData_def)

lemma saveData_stored_liked [simp]:
  "grooveLikedSongs (localStorage (saveData st)) = Stored (likedSongs st)"
  by (simp add: saveData_def)

lemma saveData_stored_playlists [simp]:
  "groovePlaylists (localStorage (saveData st)) = Stored (playlists st)"
  by (simp add: saveData_def)

lemma list_ex_id_iff: "list_ex (\<lambda>s. f s = k) xs \<longleftrightarrow> k \<in> f ` set xs"
  by (auto simp: list_ex_iff)

lemma find_id: "find (\<lambda>s. f s = k) xs = Some x \<Longrightarrow> f x = k"
  by (auto simp: find_Some_iff)

lemma find_update_first:
  "find P xs = Some x \<Longrightarrow> (\<And>y. P y \<Longrightarrow> P (f y)) \<Longrightarrow>
   find P (update_first P f xs) = Some (f x)"
  by (induction xs) (auto split: if_splits)

lemma set_update_first:
  "find P xs = Some x \<Longrightarrow> set (update_first P f xs) \<subseteq> insert (f x) (set xs)"
  by (induction xs) (auto split: if_splits)

section \<open>Likes\<close>

lemma toggle_unknown:
  "find (\<lambda>s. s_id s = songId) (songs st) = None \<Longrightarrow> toggleSongLike songId st = st"
  by (simp add: toggleSongLike_def)

lemma toggle_liked:
  "find (\<lambda>s. s_id s = songId) (songs st) = Some song \<Longrightarrow>
   likedSongs (toggleSongLike songId st) =
     (if songId \<in> s_id ` set (likedSongs st)
      then filter (\<lambda>s. s_id s \<noteq> songId) (likedSongs st)
      else likedSongs st @ [song])"
  by (simp add: toggleSongLike_def Let_def list_ex_id_iff)

lemma toggle_songs [simp]: "songs (toggleSongLike songId st) = songs st"
  by (simp add: toggleSongLike_def Let_def split: option.splits)

lemma toggle_persist:
  "find (\<lambda>s. s_id s = songId) (songs st) = Some song \<Longrightarrow>
   grooveLikedSongs (localStorage (toggleSongLike songId st)) =
     Stored (likedSongs (toggleSongLike songId st))"
  by (simp add: toggleSongLike_def Let_def)

text \<open>
  Two toggles in a row: a song that was not liked is appended and removed again; a song
  that was liked loses every entry with its id and the catalog's song is appended.
\<close>

lemma toggle_twice_liked:
  "likedSongs (toggleSongLike songId (toggleSongLike songId st)) =
    (case find (\<lambda>s. s_id s = songId) (songs st) of
       None \<Rightarrow> likedSongs st
     | Some song \<Rightarrow>
         if songId \<in> s_id ` set (likedSongs st)
         then filter (\<lambda>s. s_id s \<noteq> songId) (likedSongs st) @ [song]
         else likedSongs st)"
proof (cases "find (\<lambda>s. s_id s = songId) (songs st)")
  case None
  then show ?thesis by (simp add: toggle_unknown)
next
  case (Some song)
  have id: "s_id song = songId" using Some by (rule find_id)
  have again: "find (\<lambda>s. s_id s = songId) (songs (toggleSongLike songId st)) = Some song"
    using Some by simp
  have fresh: "songId \<notin> s_id ` set (likedSongs st) \<Longrightarrow>
      filter (\<lambda>s. s_id s \<noteq> songId) (likedSongs st) = likedSongs st"
    by (auto simp: filter_id_conv)
  show ?thesis
    using Some id fresh by (auto simp add: toggle_liked [OF again] toggle_liked [OF Some])
qed

text \<open>
  Claim C10. \<open>toggleSongLike\<close> leaves the player as it is when the id is not in the catalog.
  Otherwise it removes the entries with that id from the liked songs when there is one,
  else appends the catalog's song, and writes the liked songs to storage. After two calls
  with the same id the liked songs have the ids they had before, and the songs with other
  ids stand in the order they had before.
\<close>

theorem toggleSongLike_twice:
  "(find (\<lambda>s. s_id s = songId) (songs st) = None \<longrightarrow> toggleSongLike songId st = st) \<and>
   (\<forall>song. find (\<lambda>s. s_id s = songId) (songs st) = Some song \<longrightarrow>
      likedSongs (toggleSongLike songId st) =
        (if songId \<in> s_id ` set (likedSongs st)
         then filter (\<lambda>s. s_id s \<noteq> songId) (likedSongs st)
         else likedSongs st @ [song]) \<and>
      grooveLikedSongs (localStorage (toggleSongLike songId st)) =
        Stored (likedSongs (toggleSongLike songId st))) \<and>
   s_id ` set (likedSongs (toggleSongLike songId (toggleSongLike songId st))) =
     s_id ` set (likedSongs st) \<and>
   filter (\<lambda>s. s_id s \<noteq> songId)
       (likedSongs (toggleSongLike songId (toggleSongLike songId st))) =
     filter (\<lambda>s. s_id s \<noteq> songId) (likedSongs st)"
proof (intro conjI allI impI)
  show "s_id ` set (likedSongs (toggleSongLike songId (toggleSongLike songId st))) =
     s_id ` set (likedSongs st)"
  proof (cases "find (\<lambda>s. s_id s = songId) (songs st)")
    case None
    then show ?thesis by (simp add: toggle_twice_liked)
  next
    case (Some song)
    have id: "s_id song = songId" using Some by (rule find_id)
    show ?thesis
    proof (cases "songId \<in> s_id ` set (likedSongs st)")
      case True
      have "s_id ` set (filter (\<lambda>s. s_id s \<noteq> songId) (likedSongs st) @ [song]) =
            insert songId (s_id ` set (likedSongs st) - {songId})"
        using id by auto
      also have "\<dots> = s_id ` set (likedSongs st)" using True by auto
      finally show ?thesis using Some True by (simp add: toggle_twice_liked)
    next
      case False
      then show ?thesis using Some by (simp add: toggle_twice_liked)
    qed
  qed
  show "filter (\<lambda>s. s_id s \<noteq> songId)
       (likedSongs (toggleSongLike songId (toggleSongLike songId st))) =
     filter (\<lambda>s. s_id s \<noteq> songId) (likedSongs st)"
    by (auto simp: toggle_twice_liked split: option.splits dest: find_id)
qed (simp_all add: toggle_unknown toggle_liked toggle_persist)

theorem toggleSongLike_twice_witness:
  "find (\<lambda>s. s_id s = ''zz'') (songs library_player) = None \<and>
   toggleSongLike ''zz'' library_player = library_player \<and>
   find (\<lambda>s. s_id s = ''b'') (songs library_player) = Some song_B \<and>
   likedSongs (toggleSongLike ''b'' library_player) = [song_A, song_B] \<and>
   grooveLikedSongs (localStorage (toggleSongLike ''b'' library_player)) =
     Stored [song_A, song_B] \<and>
   find (\<lambda>s. s_id s = ''a'') (songs library_player) = Some song_A \<and>
   likedSongs (toggleSongLike ''a'' library_player) = [] \<and>
   s_id ` set (likedSongs (toggleSongLike ''a'' (toggleSongLike ''a'' library_player))) = {''a''}"
  using toggleSongLike_twice [of "''zz''" library_player]
    toggleSongLike_twice [of "''b''" library_player]
    toggleSongLike_twice [of "''a''" library_player]
  by (simp add: library_player_def loaded_player_def song_A_def song_B_def)

section \<open>Songs of a playlist\<close>

lemma addToPlaylist_changes:
  assumes "addToPlaylist playlistId songId st \<noteq> st"
  shows "\<exists>pl song. find (\<lambda>p. p_id p = playlistId) (playlists st) = Some pl \<and>
           find (\<lambda>s. s_id s = songId) (songs st) = Some song \<and> songId \<notin> set (p_songs pl)"
  using assms by (auto simp: addToPlaylist_def split: option.splits if_splits)

lemma addToPlaylist_adds:
  assumes "find (\<lambda>p. p_id p = playlistId) (playlists st) = Some pl"
    and "find (\<lambda>s. s_id s = songId) (songs st) = Some song"
    and "songId \<notin> set (p_songs pl)"
  shows "find (\<lambda>p. p_id p = playlistId) (playlists (addToPlaylist playlistId songId st)) =
           Some (pl\<lparr>p_songs := p_songs pl @ [songId]\<rparr>)"
    and "groovePlaylists (localStorage (addToPlaylist playlistId songId st)) =
           Stored (playlists (addToPlaylist playlistId songId st))"
  using assms by (simp_all add: addToPlaylist_def find_update_first)

lemma addToPlaylist_songs [simp]: "songs (addToPlaylist playlistId songId st) = songs st"
  by (simp add: addToPlaylist_def split: option.splits)

text \<open>A second call with the same arguments finds the id in the playlist and does nothing.\<close>

lemma addToPlaylist_idem:
  "addToPlaylist playlistId songId (addToPlaylist playlistId songId st) =
   addToPlaylist playlistId songId st"
proof (cases "addToPlaylist playlistId songId st = st")
  case True
  then show ?thesis by simp
next
  case False
  from addToPlaylist_changes [OF False] obtain pl song where
    pl: "find (\<lambda>p. p_id p = playlistId) (playlists st) = Some pl" and
    song: "find (\<lambda>s. s_id s = songId) (songs st) = Some song" and
    new: "songId \<notin> set (p_songs pl)"
    by blast
  let ?st = "addToPlaylist playlistId songId st"
  have "find (\<lambda>p. p_id p = playlistId) (playlists ?st) =
      Some (pl\<lparr>p_songs := p_songs pl @ [songId]\<rparr>)"
    using pl song new by (rule addToPlaylist_adds)
  moreover have "find (\<lambda>s. s_id s = songId) (songs ?st) = Some song"
    using song by simp
  ultimately show ?thesis
    by (simp add: addToPlaylist_def [of playlistId songId ?st])
qed

lemma addToPlaylist_funpow:
  "(addToPlaylist playlistId songId ^^ Suc n) st = addToPlaylist playlistId songId st"
  by (induction n) (simp_all add: addToPlaylist_idem)

lemma addToPlaylist_distinct:
  assumes "\<forall>p \<in> set (playlists st). distinct (p_songs p)"
  shows "\<forall>p \<in> set (playlists (addToPlaylist playlistId songId st)). distinct (p_songs p)"
proof (cases "addToPlaylist playlistId songId st = st")
  case True
  then show ?thesis using assms by simp
next
  case False
  from addToPlaylist_changes [OF False] obtain pl song where
    pl: "find (\<lambda>p. p_id p = playlistId) (playlists st) = Some pl" and
    song: "find (\<lambda>s. s_id s = songId) (songs st) = Some song" and
    new: "songId \<notin> set (p_songs pl)"
    by blast
  have mem: "pl \<in> set (playlists st)"
    using pl by (auto simp: find_Some_iff)
  have eq: "playlists (addToPlaylist playlistId songId st) =
      update_first (\<lambda>p. p_id p = playlistId) (\<lambda>p. p\<lparr>p_songs := p_songs p @ [songId]\<rparr>)
        (playlists st)"
    using pl song new by (simp add: addToPlaylist_def)
  have "set (playlists (addToPlaylist playlistId songId st)) \<subseteq>
      insert (pl\<lparr>p_songs := p_songs pl @ [songId]\<rparr>) (set (playlists st))"
    unfolding eq using pl by (rule set_update_first)
  moreover have "distinct (p_songs (pl\<lparr>p_songs := p_songs pl @ [songId]\<rparr>))"
    using assms mem new by simp
  ultimately show ?thesis using assms by blast
qed

lemma addToPlaylist_funpow_distinct:
  assumes "\<forall>p \<in> set (playlists st). distinct (p_songs p)"
  shows "\<forall>p \<in> set (playlists ((addToPlaylist playlistId songId ^^ n) st)).
           distinct (p_songs p)"
proof (induction n)
  case 0
  then show ?case using assms by simp
next
  case (Suc n)
  then show ?case
    using addToPlaylist_distinct [of "(addToPlaylist playlistId songId ^^ n) st"] by simp
qed

text \<open>
  Claim C9. \<open>addToPlaylist\<close> changes the player only when the playlist exists, the song is
  in the catalog and its id is not yet among the playlist's songs; then the id is appended
  to that playlist and the playlists are written to storage. Any number of calls with the
  same playlist and song amounts to one call, and playlists whose song ids were free of
  duplicates stay free of duplicates.
\<close>

theorem addToPlaylist_no_duplicates:
  "(addToPlaylist playlistId songId st \<noteq> st \<longrightarrow>
      (\<exists>pl song. find (\<lambda>p. p_id p = playlistId) (playlists st) = Some pl \<and>
         find (\<lambda>s. s_id s = songId) (songs st) = Some song \<and>
         songId \<notin> set (p_songs pl))) \<and>
   (\<forall>pl song. find (\<lambda>p. p_id p = playlistId) (playlists st) = Some pl \<and>
         find (\<lambda>s. s_id s = songId) (songs st) = Some song \<and>
         songId \<notin> set (p_songs pl) \<longrightarrow>
      find (\<lambda>p. p_id p = playlistId) (playlists (addToPlaylist playlistId songId st)) =
        Some (pl\<lparr>p_songs := p_songs pl @ [songId]\<rparr>) \<and>
      groovePlaylists (localStorage (addToPlaylist playlistId songId st)) =
        Stored (playlists (addToPlaylist playlistId songId st))) \<and>
   (addToPlaylist playlistId songId ^^ Suc n) st = addToPlaylist playlistId songId st \<and>
   ((\<forall>p \<in> set (playlists st). distinct (p_songs p)) \<longrightarrow>
      (\<forall>p \<in> set (playlists ((addToPlaylist playlistId songId ^^ n) st)).
         distinct (p_songs p)))"
proof (intro conjI allI impI)
  show "\<exists>pl song. find (\<lambda>p. p_id p = playlistId) (playlists st) = Some pl \<and>
         find (\<lambda>s. s_id s = songId) (songs st) = Some song \<and>
         songId \<notin> set (p_songs pl)"
    if "addToPlaylist playlistId songId st \<noteq> st"
    using that by (rule addToPlaylist_changes)
  show "(addToPlaylist playlistId songId ^^ Suc n) st = addToPlaylist playlistId songId st"
    by (rule addToPlaylist_funpow)
  show "\<forall>p \<in> set (playlists ((addToPlaylist playlistId songId ^^ n) st)).
         distinct (p_songs p)"
    if "\<forall>p \<in> set (playlists st). distinct (p_songs p)"
    using that by (rule addToPlaylist_funpow_distinct)
qed (simp_all add: addToPlaylist_adds)

theorem addToPlaylist_no_duplicates_witness:
  "addToPlaylist ''1'' ''a'' library_player \<noteq> library_player \<and>
   find (\<lambda>p. p_id p = ''1'') (playlists library_player) =
     Some \<lparr>p_id = ''1'', p_name = ''Road'', p_songs = [''b'', ''zz'']\<rparr> \<and>
   find (\<lambda>s. s_id s = ''a'') (songs library_player) = Some song_A \<and>
   ''a'' \<notin> set [''b'', ''zz''] \<and>
   list_all (\<lambda>p. distinct (p_songs p)) (playlists library_player) \<and>
   playlists ((addToPlaylist ''1'' ''a'' ^^ 3) library_player) =
     [\<lparr>p_id = ''1'', p_name = ''Road'', p_songs = [''b'', ''zz'', ''a'']\<rparr>] \<and>
   list_all (\<lambda>p. distinct (p_songs p))
     (playlists ((addToPlaylist ''1'' ''a'' ^^ 3) library_player))"
  using addToPlaylist_no_duplicates [of "''1''" "''a''" library_player 2]
    addToPlaylist_no_duplicates [of "''1''" "''a''" library_player 3]
  by (simp add: eval_nat_numeral addToPlaylist_def saveData_def library_player_def
      loaded_player_def empty_storage_def song_A_def song_B_def)

lemma removeFromPlaylist_noop:
  "find (\<lambda>p. p_id p = playlistId) (playlists st) = None \<or>
   find (\<lambda>s. s_id s = songId) (songs st) = None \<Longrightarrow>
   removeFromPlaylist playlistId songId st = st"
  by (auto simp: removeFromPlaylist_def split: option.splits)

lemma removeFromPlaylist_removes:
  assumes "find (\<lambda>p. p_id p = playlistId) (playlists st) = Some pl"
    and "find (\<lambda>s. s_id s = songId) (songs st) = Some song"
  shows "find (\<lambda>p. p_id p = playlistId) (playlists (removeFromPlaylist playlistId songId st)) =
           Some (pl\<lparr>p_songs := filter (\<lambda>s. s \<noteq> songId) (p_songs pl)\<rparr>)"
    and "groovePlaylists (localStorage (removeFromPlaylist playlistId songId st)) =
           Stored (playlists (removeFromPlaylist playlistId songId st))"
  using assms by (simp_all add: removeFromPlaylist_def find_update_first)

text \<open>
  Claim C5, as stated, fails: the method looks the song up in the catalog and does nothing
  when it is not there. In \<open>library_player\<close> the playlist \<open>1\<close> holds the id \<open>zz\<close>, the catalog
  has the ids \<open>a\<close> and \<open>b\<close> only, and after \<open>removeFromPlaylist\<close> the id is still in the
  playlist.
\<close>

theorem removeFromPlaylist_dangling_counterexample:
  "map s_id (songs library_player) = [''a'', ''b''] \<and>
   map p_id (playlists library_player) = [''1''] \<and>
   ''zz'' \<in> set (p_songs (hd (playlists library_player))) \<and>
   ''zz'' \<in> set (p_songs (hd (playlists (removeFromPlaylist ''1'' ''zz'' library_player))))"
  by (simp add: removeFromPlaylist_def library_player_def loaded_player_def
      song_A_def song_B_def)

text \<open>
  Claim C5, amended. When the playlist exists and the id names a song of the catalog,
  \<open>removeFromPlaylist\<close> removes every occurrence of the id from that playlist's songs and
  writes the playlists to storage. When the playlist does not exist or no song of the
  catalog has the id, the player and the storage stay as they are.
\<close>

theorem removeFromPlaylist_catalog_song:
  "(\<forall>pl song. find (\<lambda>p. p_id p = playlistId) (playlists st) = Some pl \<and>
        find (\<lambda>s. s_id s = songId) (songs st) = Some song \<longrightarrow>
      find (\<lambda>p. p_id p = playlistId) (playlists (removeFromPlaylist playlistId songId st)) =
        Some (pl\<lparr>p_songs := filter (\<lambda>s. s \<noteq> songId) (p_songs pl)\<rparr>) \<and>
      songId \<notin> set (filter (\<lambda>s. s \<noteq> songId) (p_songs pl)) \<and>
      groovePlaylists (localStorage (removeFromPlaylist playlistId songId st)) =
        Stored (playlists (removeFromPlaylist playlistId songId st))) \<and>
   (find (\<lambda>p. p_id p = playlistId) (playlists st) = None \<or>
    find (\<lambda>s. s_id s = songId) (songs st) = None \<longrightarrow>
      removeFromPlaylist playlistId songId st = st)"
proof (intro conjI allI impI)
  show "removeFromPlaylist playlistId songId st = st"
    if "find (\<lambda>p. p_id p = playlistId) (playlists st) = None \<or>
        find (\<lambda>s. s_id s = songId) (songs st) = None"
    using that by (rule removeFromPlaylist_noop)
qed (simp_all add: removeFromPlaylist_removes)

theorem removeFromPlaylist_catalog_song_witness:
  "find (\<lambda>p. p_id p = ''1'') (playlists library_player) =
     Some \<lparr>p_id = ''1'', p_name = ''Road'', p_songs = [''b'', ''zz'']\<rparr> \<and>
   find (\<lambda>s. s_id s = ''b'') (songs library_player) = Some song_B \<and>
   playlists (removeFromPlaylist ''1'' ''b'' library_player) =
     [\<lparr>p_id = ''1'', p_name = ''Road'', p_songs = [''zz'']\<rparr>] \<and>
   groovePlaylists (localStorage (removeFromPlaylist ''1'' ''b'' library_player)) =
     Stored [\<lparr>p_id = ''1'', p_name = ''Road'', p_songs = [''zz'']\<rparr>] \<and>
   find (\<lambda>p. p_id p = ''7'') (playlists library_player) = None \<and>
   removeFromPlaylist ''7'' ''b'' library_player = library_player"
  using removeFromPlaylist_catalog_song [of "''1''" library_player "''b''"]
    removeFromPlaylist_catalog_song [of "''7''" library_player "''b''"]
  by (simp add: removeFromPlaylist_def saveData_def library_player_def loaded_player_def
      empty_storage_def song_A_def song_B_def)

section \<open>Creating playlists\<close>

subsection \<open>The decimal text of a number determines the number\<close>

lemma digits_nonempty: "digits n \<noteq> []"
  by (subst digits.simps) simp

lemma digits_chars: "c \<in> set (digits n) \<Longrightarrow> \<exists>d<10. c = char_of (48 + d :: nat)"
proof (induction n rule: digits.induct)
  case (1 n)
  show ?case
  proof (cases "n < 10")
    case True
    with "1.prems" show ?thesis by (subst (asm) digits.simps) auto
  next
    case False
    from "1.prems" have "c \<in> set (digits (n div 10)) \<or> c = char_of (48 + n mod 10)"
      using False by (subst (asm) digits.simps) auto
    then show ?thesis
    proof
      assume "c \<in> set (digits (n div 10))"
      with "1.IH" False show ?thesis by blast
    next
      assume "c = char_of (48 + n mod 10)"
      then show ?thesis by (intro exI [of _ "n mod 10"]) simp
    qed
  qed
qed

lemma digit_char_inj: "d < 10 \<Longrightarrow> e < 10 \<Longrightarrow> char_of (48 + d :: nat) = char_of (48 + e :: nat) \<Longrightarrow> d = e"
proof -
  assume d: "d < 10" and e: "e < 10" and eq: "char_of (48 + d :: nat) = char_of (48 + e :: nat)"
  have "(of_char (char_of (48 + d :: nat)) :: nat) = of_char (char_of (48 + e :: nat))"
    using eq by simp
  then have "(48 + d) mod 256 = (48 + e) mod 256" by simp
  then show "d = e" using d e by simp
qed

lemma digit_char_not_minus: "d < 10 \<Longrightarrow> char_of (48 + d :: nat) \<noteq> CHR ''-''"
proof
  assume d: "d < 10" and eq: "char_of (48 + d :: nat) = CHR ''-''"
  have "(of_char (char_of (48 + d :: nat)) :: nat) = of_char CHR ''-''"
    using eq by simp
  then have "(48 + d) mod 256 = 45" by simp
  then show False using d by simp
qed

lemma digits_inj: "digits n = digits m \<Longrightarrow> n = m"
proof (induction n arbitrary: m rule: digits.induct)
  case (1 n)
  show ?case
  proof (cases "n < 10")
    case n: True
    show ?thesis
    proof (cases "m < 10")
      case True
      from "1.prems" n True have "char_of (48 + n) = char_of (48 + m)"
        by (simp add: digits.simps [of n] digits.simps [of m])
      then show ?thesis using n True by (rule digit_char_inj [rotated 2])
    next
      case False
      from "1.prems" n False have "[char_of (48 + n)] = digits (m div 10) @ [char_of (48 + m mod 10)]"
        by (simp add: digits.simps [of n] digits.simps [of m])
      then have "digits (m div 10) = []" by simp
      then show ?thesis using digits_nonempty by blast
    qed
  next
    case n: False
    show ?thesis
    proof (cases "m < 10")
      case True
      from "1.prems" n True have "digits (n div 10) @ [char_of (48 + n mod 10)] = [char_of (48 + m)]"
        by (simp add: digits.simps [of n] digits.simps [of m])
      then have "digits (n div 10) = []" by simp
      then show ?thesis using digits_nonempty by blast
    next
      case False
      from "1.prems" n False have eq: "digits (n div 10) @ [char_of (48 + n mod 10)] =
          digits (m div 10) @ [char_of (48 + m mod 10)]"
        by (simp add: digits.simps [of n] digits.simps [of m])
      then have a: "digits (n div 10) = digits (m div 10)"
        and b: "char_of (48 + n mod 10) = char_of (48 + m mod 10)" by simp_all
      from "1.IH" [OF n a] have d: "n div 10 = m div 10" .
      have "n mod 10 = m mod 10" using b by (intro digit_char_inj) simp_all
      with d have "n div 10 * 10 + n mod 10 = m div 10 * 10 + m mod 10" by simp
      then show ?thesis by (simp only: div_mult_mod_eq)
    qed
  qed
qed

lemma toString_inj: "toString a = toString b \<Longrightarrow> a = b"
proof -
  assume eq: "toString a = toString b"
  have hd_digit: "hd (digits n) \<noteq> CHR ''-''" for n
  proof -
    have "hd (digits n) \<in> set (digits n)" using digits_nonempty by simp
    then obtain d :: nat where "d < 10" "hd (digits n) = char_of (48 + d)"
      using digits_chars by blast
    then show ?thesis using digit_char_not_minus by simp
  qed
  have neq: "CHR ''-'' # xs \<noteq> digits n" for xs n
    using hd_digit [of n] by (metis list.sel(1))
  show "a = b"
  proof (cases "a < 0")
    case a: True
    show ?thesis
    proof (cases "b < 0")
      case True
      with a eq have "digits (nat (- a)) = digits (nat (- b))" by (simp add: toString_def)
      then have "nat (- a) = nat (- b)" by (rule digits_inj)
      with a True show ?thesis by simp
    next
      case False
      with a eq neq show ?thesis by (simp add: toString_def)
    qed
  next
    case a: False
    show ?thesis
    proof (cases "b < 0")
      case True
      with a eq neq [of "digits (nat (- b))" "nat a"] show ?thesis by (simp add: toString_def)
    next
      case False
      with a eq have "digits (nat a) = digits (nat b)" by (simp add: toString_def)
      then have "nat a = nat b" by (rule digits_inj)
      with a False show ?thesis by simp
    qed
  qed
qed

lemma toString_examples:
  "toString 1700000000000 = ''1700000000000''" "toString 1000 = ''1000''"
  "toString 2000 = ''2000''" "toString (- 7) = ''-7''"
  by (simp_all add: toString_def digits.simps char_of_eq_iff)

subsection \<open>One call\<close>

lemma createPlaylist_empty:
  "trim input = [] \<Longrightarrow> createPlaylist trim toLowerCase now input st = (EmptyName, st)"
  by (simp add: createPlaylist_def)

lemma createPlaylist_duplicate:
  "trim input \<noteq> [] \<Longrightarrow>
   \<exists>p \<in> set (playlists st). toLowerCase (p_name p) = toLowerCase (trim input) \<Longrightarrow>
   createPlaylist trim toLowerCase now input st = (DuplicateName, st)"
  by (simp add: createPlaylist_def list_ex_iff)

lemma createPlaylist_created:
  assumes "trim input \<noteq> []"
    and "\<not> (\<exists>p \<in> set (playlists st). toLowerCase (p_name p) = toLowerCase (trim input))"
  shows "fst (createPlaylist trim toLowerCase now input st) = Created"
    and "playlists (snd (createPlaylist trim toLowerCase now input st)) =
           playlists st @ [\<lparr>p_id = toString now, p_name = trim input, p_songs = []\<rparr>]"
    and "groovePlaylists (localStorage (snd (createPlaylist trim toLowerCase now input st))) =
           Stored (playlists (snd (createPlaylist trim toLowerCase now input st)))"
  using assms by (simp_all add: createPlaylist_def list_ex_iff)

lemma createPlaylist_same_name_twice:
  assumes "trim a \<noteq> []" and "trim b \<noteq> []"
    and "toLowerCase (trim a) = toLowerCase (trim b)"
    and "\<not> (\<exists>p \<in> set (playlists st). toLowerCase (p_name p) = toLowerCase (trim a))"
  shows "fst (createPlaylist trim toLowerCase t1 a st) = Created \<and>
         fst (createPlaylist trim toLowerCase t2 b
               (snd (createPlaylist trim toLowerCase t1 a st))) = DuplicateName \<and>
         playlists (snd (createPlaylist trim toLowerCase t2 b
               (snd (createPlaylist trim toLowerCase t1 a st)))) =
           playlists st @ [\<lparr>p_id = toString t1, p_name = trim a, p_songs = []\<rparr>]"
  using assms by (simp add: createPlaylist_def list_ex_iff)

text \<open>
  Claim C7. \<open>createPlaylist\<close> takes the empty-name exit when the trimmed input is empty, and
  the duplicate-name exit when the lower-cased name of a stored playlist equals the
  lower-cased trimmed input; on both exits the player is returned as it was. Otherwise one
  playlist with the trimmed name, the clock's text as id and no songs is appended, and the
  playlists are written to storage. Two calls whose trimmed names have the same lower-case
  form, the first of them new, store one playlist, and the second call takes the
  duplicate-name exit.
\<close>

theorem createPlaylist_validation:
  "(trim input = [] \<longrightarrow>
      createPlaylist trim toLowerCase now input st = (EmptyName, st)) \<and>
   (trim input \<noteq> [] \<and>
    (\<exists>p \<in> set (playlists st). toLowerCase (p_name p) = toLowerCase (trim input)) \<longrightarrow>
      createPlaylist trim toLowerCase now input st = (DuplicateName, st)) \<and>
   (trim input \<noteq> [] \<and>
    \<not> (\<exists>p \<in> set (playlists st). toLowerCase (p_name p) = toLowerCase (trim input)) \<longrightarrow>
      fst (createPlaylist trim toLowerCase now input st) = Created \<and>
      playlists (snd (createPlaylist trim toLowerCase now input st)) =
        playlists st @ [\<lparr>p_id = toString now, p_name = trim input, p_songs = []\<rparr>] \<and>
      groovePlaylists (localStorage (snd (createPlaylist trim toLowerCase now input st))) =
        Stored (playlists (snd (createPlaylist trim toLowerCase now input st)))) \<and>
   (trim input \<noteq> [] \<and> trim input' \<noteq> [] \<and>
    toLowerCase (trim input) = toLowerCase (trim input') \<and>
    \<not> (\<exists>p \<in> set (playlists st). toLowerCase (p_name p) = toLowerCase (trim input)) \<longrightarrow>
      fst (createPlaylist trim toLowerCase now input st) = Created \<and>
      fst (createPlaylist trim toLowerCase now' input'
            (snd (createPlaylist trim toLowerCase now input st))) = DuplicateName \<and>
      playlists (snd (createPlaylist trim toLowerCase now' input'
            (snd (createPlaylist trim toLowerCase now input st)))) =
        playlists st @ [\<lparr>p_id = toString now, p_name = trim input, p_songs = []\<rparr>])"
proof (intro conjI)
  show "trim input = [] \<longrightarrow>
      createPlaylist trim toLowerCase now input st = (EmptyName, st)"
    by (simp add: createPlaylist_def)
  show "trim input \<noteq> [] \<and>
    (\<exists>p \<in> set (playlists st). toLowerCase (p_name p) = toLowerCase (trim input)) \<longrightarrow>
      createPlaylist trim toLowerCase now input st = (DuplicateName, st)"
    by (simp add: createPlaylist_def list_ex_iff)
  show "trim input \<noteq> [] \<and>
    \<not> (\<exists>p \<in> set (playlists st). toLowerCase (p_name p) = toLowerCase (trim input)) \<longrightarrow>
      fst (createPlaylist trim toLowerCase now input st) = Created \<and>
      playlists (snd (createPlaylist trim toLowerCase now input st)) =
        playlists st @ [\<lparr>p_id = toString now, p_name = trim input, p_songs = []\<rparr>] \<and>
      groovePlaylists (localStorage (snd (createPlaylist trim toLowerCase now input st))) =
        Stored (playlists (snd (createPlaylist trim toLowerCase now input st)))"
    by (simp add: createPlaylist_def list_ex_iff)
  show "trim input \<noteq> [] \<and> trim input' \<noteq> [] \<and>
    toLowerCase (trim input) = toLowerCase (trim input') \<and>
    \<not> (\<exists>p \<in> set (playlists st). toLowerCase (p_name p) = toLowerCase (trim input)) \<longrightarrow>
      fst (createPlaylist trim toLowerCase now input st) = Created \<and>
      fst (createPlaylist trim toLowerCase now' input'
            (snd (createPlaylist trim toLowerCase now input st))) = DuplicateName \<and>
      playlists (snd (createPlaylist trim toLowerCase now' input'
            (snd (createPlaylist trim toLowerCase now input st)))) =
        playlists st @ [\<lparr>p_id = toString now, p_name = trim input, p_songs = []\<rparr>]"
  proof
    assume h: "trim input \<noteq> [] \<and> trim input' \<noteq> [] \<and>
      toLowerCase (trim input) = toLowerCase (trim input') \<and>
      \<not> (\<exists>p \<in> set (playlists st). toLowerCase (p_name p) = toLowerCase (trim input))"
    show "fst (createPlaylist trim toLowerCase now input st) = Created \<and>
      fst (createPlaylist trim toLowerCase now' input'
            (snd (createPlaylist trim toLowerCase now input st))) = DuplicateName \<and>
      playlists (snd (createPlaylist trim toLowerCase now' input'
            (snd (createPlaylist trim toLowerCase now input st)))) =
        playlists st @ [\<lparr>p_id = toString now, p_name = trim input, p_songs = []\<rparr>]"
      by (rule createPlaylist_same_name_twice) (use h in blast)+
  qed
qed

theorem createPlaylist_validation_witness:
  "ascii_trim ''   '' = [] \<and>
   createPlaylist ascii_trim ascii_toLowerCase 1000 ''   '' (loaded_player [] empty_storage) =
     (EmptyName, loaded_player [] empty_storage) \<and>
   ascii_trim ''Rock'' \<noteq> [] \<and> ascii_trim '' rock '' \<noteq> [] \<and>
   ascii_toLowerCase (ascii_trim ''Rock'') = ascii_toLowerCase (ascii_trim '' rock '') \<and>
   fst (createPlaylist ascii_trim ascii_toLowerCase 1000 ''Rock''
         (loaded_player [] empty_storage)) = Created \<and>
   groovePlaylists (localStorage (snd (createPlaylist ascii_trim ascii_toLowerCase 1000 ''Rock''
         (loaded_player [] empty_storage)))) =
     Stored [\<lparr>p_id = ''1000'', p_name = ''Rock'', p_songs = []\<rparr>] \<and>
   fst (createPlaylist ascii_trim ascii_toLowerCase 2000 '' rock ''
         (snd (createPlaylist ascii_trim ascii_toLowerCase 1000 ''Rock''
           (loaded_player [] empty_storage)))) = DuplicateName \<and>
   playlists (snd (createPlaylist ascii_trim ascii_toLowerCase 2000 '' rock ''
         (snd (createPlaylist ascii_trim ascii_toLowerCase 1000 ''Rock''
           (loaded_player [] empty_storage))))) =
     [\<lparr>p_id = ''1000'', p_name = ''Rock'', p_songs = []\<rparr>]"
  using createPlaylist_validation [of ascii_trim "''   ''" ascii_toLowerCase 1000
      "loaded_player [] empty_storage" "''   ''" 1000]
    createPlaylist_validation [of ascii_trim "''Rock''" ascii_toLowerCase 1000
      "loaded_player [] empty_storage" "'' rock ''" 2000]
  by (simp add: createPlaylist_def ascii_trim_def ascii_toLowerCase_def Let_def char_of_def
      bit_iff_odd_drop_bit loaded_player_def saveData_def toString_def digits.simps)

subsection \<open>Ids over a sequence of calls\<close>

lemma createPlaylist_ids:
  "p_id ` set (playlists (snd (createPlaylist trim toLowerCase now input st))) \<subseteq>
     insert (toString now) (p_id ` set (playlists st))"
  by (auto simp: createPlaylist_def Let_def)

lemma createPlaylist_distinct:
  assumes "distinct (map p_id (playlists st))"
    and "toString now \<notin> p_id ` set (playlists st)"
  shows "distinct (map p_id (playlists (snd (createPlaylist trim toLowerCase now input st))))"
  using assms by (auto simp: createPlaylist_def Let_def)

text \<open>
  Claim C8, as stated, fails: the id is the text of \<open>Date.now()\<close> and nothing compares
  it with the ids in use. Two calls with different names at the same clock reading
  both succeed and store two playlists with the same id.
\<close>

theorem createPlaylist_same_clock_counterexample:
  "map p_id (playlists (createPlaylists ascii_trim ascii_toLowerCase
      [(1700000000000, ''Rock''), (1700000000000, ''Jazz'')]
      (loaded_player [] empty_storage))) = [''1700000000000'', ''1700000000000''] \<and>
   map p_name (playlists (createPlaylists ascii_trim ascii_toLowerCase
      [(1700000000000, ''Rock''), (1700000000000, ''Jazz'')]
      (loaded_player [] empty_storage))) = [''Rock'', ''Jazz'']"
  by (simp add: createPlaylist_def ascii_trim_def ascii_toLowerCase_def Let_def char_of_def
      bit_iff_odd_drop_bit loaded_player_def saveData_def toString_def digits.simps)

text \<open>
  Claim C8, amended. When the stored playlists have pairwise distinct ids, the calls of a
  sequence are made at pairwise distinct clock readings, and the text of none of these
  readings is the id of a stored playlist, then after the whole sequence the stored
  playlists have pairwise distinct ids.
\<close>

theorem createPlaylists_distinct_ids:
  assumes "distinct (map p_id (playlists st))"
    and "\<forall>now \<in> fst ` set calls. toString now \<notin> p_id ` set (playlists st)"
    and "distinct (map fst calls)"
  shows "distinct (map p_id (playlists (createPlaylists trim toLowerCase calls st)))"
  using assms
proof (induction calls arbitrary: st)
  case Nil
  then show ?case by simp
next
  case (Cons c calls)
  obtain now input where c: "c = (now, input)" by (cases c)
  let ?st = "snd (createPlaylist trim toLowerCase now input st)"
  have d: "distinct (map p_id (playlists ?st))"
    using Cons.prems c by (intro createPlaylist_distinct) auto
  have ids: "p_id ` set (playlists ?st) \<subseteq> insert (toString now) (p_id ` set (playlists st))"
    by (rule createPlaylist_ids)
  have "\<forall>t \<in> fst ` set calls. toString t \<notin> p_id ` set (playlists ?st)"
  proof
    fix t assume t: "t \<in> fst ` set calls"
    then have "t \<noteq> now" using Cons.prems(3) c by auto
    then have "toString t \<noteq> toString now" using toString_inj by blast
    moreover have "toString t \<notin> p_id ` set (playlists st)" using Cons.prems(2) t by auto
    ultimately show "toString t \<notin> p_id ` set (playlists ?st)" using ids by blast
  qed
  moreover have "distinct (map fst calls)" using Cons.prems(3) by simp
  ultimately show ?case using Cons.IH [OF d] c by simp
qed

theorem createPlaylists_distinct_ids_witness:
  "distinct (map p_id (playlists library_player)) \<and>
   toString 1000 \<notin> p_id ` set (playlists library_player) \<and>
   toString 2000 \<notin> p_id ` set (playlists library_player) \<and>
   distinct (map fst [(1000 :: int, ''Rock''), (2000, ''Jazz'')]) \<and>
   map p_id (playlists (createPlaylists ascii_trim ascii_toLowerCase
      [(1000, ''Rock''), (2000, ''Jazz'')] library_player)) = [''1'', ''1000'', ''2000''] \<and>
   distinct (map p_id (playlists (createPlaylists ascii_trim ascii_toLowerCase
      [(1000, ''Rock''), (2000, ''Jazz'')] library_player)))"
proof -
  have ids: "map p_id (playlists (createPlaylists ascii_trim ascii_toLowerCase
      [(1000, ''Rock''), (2000, ''Jazz'')] library_player)) = [''1'', ''1000'', ''2000'']"
    by (simp add: createPlaylist_def ascii_trim_def ascii_toLowerCase_def Let_def char_of_def
        bit_iff_odd_drop_bit library_player_def loaded_player_def saveData_def toString_def
        digits.simps)
  have h1: "distinct (map p_id (playlists library_player))"
    by (simp add: library_player_def loaded_player_def)
  have h2: "\<forall>now \<in> fst ` set [(1000, ''Rock''), (2000, ''Jazz'')].
      toString now \<notin> p_id ` set (playlists library_player)"
    by (simp add: library_player_def loaded_player_def toString_def digits.simps char_of_def
        bit_iff_odd_drop_bit)
  have h3: "distinct (map fst [(1000 :: int, ''Rock''), (2000, ''Jazz'')])"
    by simp
  from createPlaylists_distinct_ids [OF h1 h2 h3, of ascii_trim ascii_toLowerCase] ids h1 h2 h3
  show ?thesis by simp
qed

section \<open>Ring navigation\<close>

lemma mod_step_next: "((i + 1) mod n + k) mod n = (i + (1 + k)) mod (n::int)"
  by (simp add: mod_add_left_eq add.assoc)

lemma mod_step_prev: "((i - 1 + n) mod n - k) mod n = (i - (1 + k)) mod (n::int)"
proof -
  have "((i - 1 + n) mod n - k) mod n = ((i - 1) mod n - k) mod n" by simp
  also have "\<dots> = (i - 1 - k) mod n" by (simp add: mod_diff_left_eq)
  also have "i - 1 - k = i - (1 + k)" by simp
  finally show ?thesis .
qed

lemma findIndex_bounds: "- 1 \<le> findIndex P xs \<and> findIndex P xs < int (length xs)"
  by (induction xs) (auto simp: Let_def)

text \<open>Reading the array at the result of \<open>findIndex\<close> is \<open>find\<close>.\<close>

lemma at_index_findIndex: "at_index xs (findIndex P xs) = find P xs"
proof (induction xs)
  case Nil
  then show ?case by (simp add: at_index_def)
next
  case (Cons x xs)
  show ?case
  proof (cases "P x")
    case True
    then show ?thesis by (simp add: at_index_def)
  next
    case False
    have b: "- 1 \<le> findIndex P xs \<and> findIndex P xs < int (length xs)"
      by (rule findIndex_bounds)
    show ?thesis
    proof (cases "findIndex P xs < 0")
      case True
      with Cons.IH have "find P xs = None" by (simp add: at_index_def)
      with True False show ?thesis by (simp add: at_index_def Let_def)
    next
      case nonneg: False
      with Cons.IH b have "find P xs = Some (xs ! nat (findIndex P xs))"
        by (simp add: at_index_def)
      moreover have "nat (findIndex P xs + 1) = Suc (nat (findIndex P xs))"
        using nonneg by simp
      ultimately show ?thesis using False nonneg b by (simp add: at_index_def Let_def)
    qed
  qed
qed

lemma findIndex_distinct:
  "distinct (map f xs) \<Longrightarrow> k < length xs \<Longrightarrow>
   findIndex (\<lambda>s. f s = f (xs ! k)) xs = int k"
proof (induction xs arbitrary: k)
  case Nil
  then show ?case by simp
next
  case (Cons x xs)
  show ?case
  proof (cases k)
    case 0
    then show ?thesis by simp
  next
    case (Suc j)
    with Cons.prems have j: "j < length xs" and d: "distinct (map f xs)" by simp_all
    have "f (xs ! j) \<in> f ` set xs" using j by simp
    with Cons.prems(1) have "f x \<noteq> f (xs ! j)" by auto
    with Cons.IH [OF d j] Suc show ?thesis by (simp add: Let_def)
  qed
qed

lemma find_distinct_member:
  "distinct (map f xs) \<Longrightarrow> x \<in> set xs \<Longrightarrow> find (\<lambda>s. f s = f x) xs = Some x"
  by (induction xs) auto

lemma playSong_invariant_iff:
  "session_invariant (playSong song st) \<longleftrightarrow>
   find (\<lambda>s. s_id s = s_id song) (activeView st) = Some song"
  by (simp add: session_invariant_def playSong_def at_index_findIndex)

lemma activeView_playSong [simp]: "activeView (playSong song st) = activeView st"
  by (simp add: activeView_def playSong_def)

lemma activeView_index [simp]: "activeView (st\<lparr>currentIndex := i\<rparr>) = activeView st"
  by (simp add: activeView_def)

text \<open>From index \<open>-1\<close> on, the remainder of JavaScript is the one of \<open>mod\<close>.\<close>

lemma smod_next: "- 1 \<le> i \<Longrightarrow> 0 < n \<Longrightarrow> (i + 1) smod n = (i + 1) mod (n::int)"
  by (simp add: signed_modulo_int_def sgn_if abs_if)

lemma smod_prev: "- 1 \<le> i \<Longrightarrow> 0 < n \<Longrightarrow> (i - 1 + n) smod n = (i - 1 + n) mod (n::int)"
proof -
  assume i: "- 1 \<le> i" and n: "0 < n"
  define k where "k = i - 1 + n"
  have "k smod n = k mod n"
  proof (cases "0 \<le> k")
    case True
    then show ?thesis using n by (cases "k = 0") (simp_all add: signed_modulo_int_def)
  next
    case False
    with i n have "n = 1" "k = - 1" by (simp_all add: k_def)
    then show ?thesis by (simp add: signed_modulo_int_def)
  qed
  then show ?thesis by (simp only: k_def)
qed

lemma nextSong_empty: "currentPlaylist st = [] \<Longrightarrow> nextSong st = Inr st"
  by (simp add: nextSong_def)

lemma previousSong_empty: "currentPlaylist st = [] \<Longrightarrow> previousSong st = Inr st"
  by (simp add: previousSong_def)

lemma at_index_mod:
  "xs \<noteq> [] \<Longrightarrow>
   at_index xs (j mod int (length xs)) = Some (xs ! nat (j mod int (length xs)))"
  by (simp add: at_index_def)

lemma nextSong_plays:
  assumes "currentPlaylist st \<noteq> []" and "- 1 \<le> currentIndex st"
  shows "nextSong st =
    Inr (playSong
          (currentPlaylist st !
             nat ((currentIndex st + 1) mod int (length (currentPlaylist st))))
          (st\<lparr>currentIndex :=
               (currentIndex st + 1) mod int (length (currentPlaylist st))\<rparr>))"
  using assms by (simp add: nextSong_def Let_def smod_next at_index_mod)

lemma previousSong_plays:
  assumes "currentPlaylist st \<noteq> []" and "- 1 \<le> currentIndex st"
  shows "previousSong st =
    Inr (playSong
          (currentPlaylist st !
             nat ((currentIndex st - 1 + int (length (currentPlaylist st))) mod
                  int (length (currentPlaylist st))))
          (st\<lparr>currentIndex :=
               (currentIndex st - 1 + int (length (currentPlaylist st))) mod
               int (length (currentPlaylist st))\<rparr>))"
  using assms by (simp add: previousSong_def Let_def smod_prev at_index_mod)

lemma playSong_at:
  assumes "currentPlaylist st = activeView st" "distinct (map s_id (currentPlaylist st))"
    "0 \<le> j" "j < int (length (currentPlaylist st))"
  shows "currentIndex (playSong (currentPlaylist st ! nat j) (st\<lparr>currentIndex := i\<rparr>)) = j"
    and "currentPlaylist (playSong (currentPlaylist st ! nat j) (st\<lparr>currentIndex := i\<rparr>)) =
           currentPlaylist st"
    and "currentSong (playSong (currentPlaylist st ! nat j) (st\<lparr>currentIndex := i\<rparr>)) =
           Some (currentPlaylist st ! nat j)"
proof -
  have "findIndex (\<lambda>s. s_id s = s_id (currentPlaylist st ! nat j)) (currentPlaylist st) =
      int (nat j)"
    using assms by (intro findIndex_distinct) simp_all
  then show "currentIndex (playSong (currentPlaylist st ! nat j) (st\<lparr>currentIndex := i\<rparr>)) = j"
    using assms by (simp add: playSong_def)
  show "currentPlaylist (playSong (currentPlaylist st ! nat j) (st\<lparr>currentIndex := i\<rparr>)) =
      currentPlaylist st"
    using assms by (simp add: playSong_def)
  show "currentSong (playSong (currentPlaylist st ! nat j) (st\<lparr>currentIndex := i\<rparr>)) =
      Some (currentPlaylist st ! nat j)"
    by (simp add: playSong_def)
qed

lemma ring_readyD:
  assumes "ring_ready st"
  shows "currentPlaylist st \<noteq> []" "currentPlaylist st = activeView st"
    "distinct (map s_id (currentPlaylist st))" "0 \<le> currentIndex st"
    "currentIndex st < int (length (currentPlaylist st))"
  using assms unfolding ring_ready_def by blast+

lemma ring_ready_playSong_at:
  assumes "ring_ready st" "0 \<le> j" "j < int (length (currentPlaylist st))"
  shows "ring_ready (playSong (currentPlaylist st ! nat j) (st\<lparr>currentIndex := i\<rparr>))"
proof -
  let ?st = "playSong (currentPlaylist st ! nat j) (st\<lparr>currentIndex := i\<rparr>)"
  note r = ring_readyD [OF assms(1)]
  have 1: "currentIndex ?st = j" and 2: "currentPlaylist ?st = currentPlaylist st"
    using r(2) r(3) assms(2) assms(3) by (rule playSong_at)+
  have 3: "activeView ?st = activeView st" by simp
  show ?thesis
    unfolding ring_ready_def 1 2 3 using r assms(2) assms(3) by blast
qed

lemma nextSong_ring:
  assumes "ring_ready st"
  shows "\<exists>st'. nextSong st = Inr st' \<and> ring_ready st' \<and>
           currentPlaylist st' = currentPlaylist st \<and>
           currentIndex st' = (currentIndex st + 1) mod int (length (currentPlaylist st)) \<and>
           currentSong st' = Some (currentPlaylist st ! nat (currentIndex st'))"
proof -
  let ?n = "int (length (currentPlaylist st))"
  let ?j = "(currentIndex st + 1) mod ?n"
  note r = ring_readyD [OF assms]
  have ne: "currentPlaylist st \<noteq> []" and view: "currentPlaylist st = activeView st"
    and d: "distinct (map s_id (currentPlaylist st))" by (rule r)+
  have lo: "- 1 \<le> currentIndex st" using r(4) by simp
  have j: "0 \<le> ?j" "?j < ?n" using ne by simp_all
  have "nextSong st = Inr (playSong (currentPlaylist st ! nat ?j) (st\<lparr>currentIndex := ?j\<rparr>))"
    using ne lo by (rule nextSong_plays)
  moreover have "ring_ready (playSong (currentPlaylist st ! nat ?j) (st\<lparr>currentIndex := ?j\<rparr>))"
    using assms j by (rule ring_ready_playSong_at)
  ultimately show ?thesis using playSong_at [OF view d j, of ?j] by simp
qed

lemma previousSong_ring:
  assumes "ring_ready st"
  shows "\<exists>st'. previousSong st = Inr st' \<and> ring_ready st' \<and>
           currentPlaylist st' = currentPlaylist st \<and>
           currentIndex st' =
             (currentIndex st - 1 + int (length (currentPlaylist st))) mod
             int (length (currentPlaylist st)) \<and>
           currentSong st' = Some (currentPlaylist st ! nat (currentIndex st'))"
proof -
  let ?n = "int (length (currentPlaylist st))"
  let ?j = "(currentIndex st - 1 + ?n) mod ?n"
  note r = ring_readyD [OF assms]
  have ne: "currentPlaylist st \<noteq> []" and view: "currentPlaylist st = activeView st"
    and d: "distinct (map s_id (currentPlaylist st))" by (rule r)+
  have lo: "- 1 \<le> currentIndex st" using r(4) by simp
  have j: "0 \<le> ?j" "?j < ?n" using ne by simp_all
  have "previousSong st =
      Inr (playSong (currentPlaylist st ! nat ?j) (st\<lparr>currentIndex := ?j\<rparr>))"
    using ne lo by (rule previousSong_plays)
  moreover have "ring_ready (playSong (currentPlaylist st ! nat ?j) (st\<lparr>currentIndex := ?j\<rparr>))"
    using assms j by (rule ring_ready_playSong_at)
  ultimately show ?thesis using playSong_at [OF view d j, of ?j] by simp
qed

lemma repeated_nextSong:
  assumes "ring_ready st"
  shows "\<exists>st'. repeated k nextSong st = Inr st' \<and> ring_ready st' \<and>
           currentPlaylist st' = currentPlaylist st \<and>
           currentIndex st' = (currentIndex st + int k) mod int (length (currentPlaylist st))"
  using assms
proof (induction k arbitrary: st)
  case 0
  have "currentIndex st mod int (length (currentPlaylist st)) = currentIndex st"
    using ring_readyD(4,5) [OF 0] by simp
  with 0 show ?case by simp
next
  case (Suc k)
  from nextSong_ring [OF Suc.prems] obtain st1 where
    1: "nextSong st = Inr st1" "ring_ready st1" "currentPlaylist st1 = currentPlaylist st"
      "currentIndex st1 = (currentIndex st + 1) mod int (length (currentPlaylist st))"
    by blast
  from Suc.IH [OF 1(2)] obtain st' where
    2: "repeated k nextSong st1 = Inr st'" "ring_ready st'"
      "currentPlaylist st' = currentPlaylist st1"
      "currentIndex st' = (currentIndex st1 + int k) mod int (length (currentPlaylist st1))"
    by blast
  have "currentIndex st' = (currentIndex st + int (Suc k)) mod int (length (currentPlaylist st))"
    unfolding 2(4) 1(3) 1(4) using mod_step_next [of "currentIndex st" _ "int k"] by simp
  with 1 2 show ?case by simp
qed

lemma repeated_previousSong:
  assumes "ring_ready st"
  shows "\<exists>st'. repeated k previousSong st = Inr st' \<and> ring_ready st' \<and>
           currentPlaylist st' = currentPlaylist st \<and>
           currentIndex st' = (currentIndex st - int k) mod int (length (currentPlaylist st))"
  using assms
proof (induction k arbitrary: st)
  case 0
  have "currentIndex st mod int (length (currentPlaylist st)) = currentIndex st"
    using ring_readyD(4,5) [OF 0] by simp
  with 0 show ?case by simp
next
  case (Suc k)
  from previousSong_ring [OF Suc.prems] obtain st1 where
    1: "previousSong st = Inr st1" "ring_ready st1" "currentPlaylist st1 = currentPlaylist st"
      "currentIndex st1 =
         (currentIndex st - 1 + int (length (currentPlaylist st))) mod
         int (length (currentPlaylist st))"
    by blast
  from Suc.IH [OF 1(2)] obtain st' where
    2: "repeated k previousSong st1 = Inr st'" "ring_ready st'"
      "currentPlaylist st' = currentPlaylist st1"
      "currentIndex st' = (currentIndex st1 - int k) mod int (length (currentPlaylist st1))"
    by blast
  have "currentIndex st' = (currentIndex st - int (Suc k)) mod int (length (currentPlaylist st))"
    unfolding 2(4) 1(3) 1(4) using mod_step_prev [of "currentIndex st" _ "int k"] by simp
  with 1 2 show ?case by simp
qed

section \<open>The session invariant\<close>

lemmas example_defs = searched_player_def loaded_player_def song_A_def song_B_def song_C_def
  empty_storage_def new_Audio_def recent_snapshot_def snapshot_storage_def

lemmas ascii_defs = ascii_trim_def ascii_toLowerCase_def Let_def char_of_def
  bit_iff_odd_drop_bit

lemma session_invariant_unfold:
  "session_invariant st \<longleftrightarrow>
     (case currentSong st of
        None \<Rightarrow> True
      | Some cur \<Rightarrow>
          0 \<le> currentIndex st \<and> currentIndex st < int (length (currentPlaylist st)) \<and>
          currentPlaylist st ! nat (currentIndex st) = cur)"
  by (auto simp: session_invariant_def at_index_def split: option.splits)

lemma playSong_currentSong [simp]: "currentSong (playSong song st) = Some song"
  by (simp add: playSong_def)

lemma playSong_invariant_view:
  assumes "distinct (map s_id (activeView st))" and "song \<in> set (activeView st)"
  shows "session_invariant (playSong song st)"
  using assms by (simp add: playSong_invariant_iff find_distinct_member)

lemma ring_ready_invariant:
  assumes "ring_ready st'"
    and "currentSong st' = Some (currentPlaylist st' ! nat (currentIndex st'))"
  shows "session_invariant st'"
  using ring_readyD(4,5) [OF assms(1)] assms(2)
  by (simp add: session_invariant_def at_index_def)

text \<open>
  \<open>nextSong\<close> and \<open>previousSong\<close> on a non-empty playlist, from an index of at least
  \<open>-1\<close>: the song at the new index becomes the current song, and the invariant holds
  afterwards exactly when that song is the first one of the active view with its id.
\<close>

lemma nextSong_invariant_iff:
  assumes "currentPlaylist st \<noteq> []" and "- 1 \<le> currentIndex st"
  shows "\<exists>st'. nextSong st = Inr st' \<and>
     currentSong st' =
       Some (currentPlaylist st !
               nat ((currentIndex st + 1) smod int (length (currentPlaylist st)))) \<and>
     (session_invariant st' \<longleftrightarrow>
        find (\<lambda>s. s_id s = s_id (currentPlaylist st !
               nat ((currentIndex st + 1) smod int (length (currentPlaylist st)))))
          (activeView st) =
        Some (currentPlaylist st !
               nat ((currentIndex st + 1) smod int (length (currentPlaylist st)))))"
proof -
  have n: "0 < int (length (currentPlaylist st))" using assms(1) by simp
  have m: "(currentIndex st + 1) smod int (length (currentPlaylist st)) =
      (currentIndex st + 1) mod int (length (currentPlaylist st))"
    using assms(2) n by (rule smod_next)
  show ?thesis
    unfolding m nextSong_plays [OF assms] by (simp add: playSong_invariant_iff)
qed

lemma previousSong_invariant_iff:
  assumes "currentPlaylist st \<noteq> []" and "- 1 \<le> currentIndex st"
  shows "\<exists>st'. previousSong st = Inr st' \<and>
     currentSong st' =
       Some (currentPlaylist st !
               nat ((currentIndex st - 1 + int (length (currentPlaylist st))) smod
                    int (length (currentPlaylist st)))) \<and>
     (session_invariant st' \<longleftrightarrow>
        find (\<lambda>s. s_id s = s_id (currentPlaylist st !
               nat ((currentIndex st - 1 + int (length (currentPlaylist st))) smod
                    int (length (currentPlaylist st)))))
          (activeView st) =
        Some (currentPlaylist st !
               nat ((currentIndex st - 1 + int (length (currentPlaylist st))) smod
                    int (length (currentPlaylist st)))))"
proof -
  have n: "0 < int (length (currentPlaylist st))" using assms(1) by simp
  have m: "(currentIndex st - 1 + int (length (currentPlaylist st))) smod
        int (length (currentPlaylist st)) =
      (currentIndex st - 1 + int (length (currentPlaylist st))) mod
        int (length (currentPlaylist st))"
    using assms(2) n by (rule smod_prev)
  show ?thesis
    unfolding m previousSong_plays [OF assms] by (simp add: playSong_invariant_iff)
qed

text \<open>
  Claim C2, as stated, fails. Resumption from the snapshot sets the current song and leaves
  the current playlist and index alone: on a freshly loaded player the playlist is empty
  afterwards. \<open>playSong\<close> takes the playlist from the active view: a liked song that the
  search has filtered out of the view is played with index \<open>-1\<close>. And \<open>previousSong\<close> on
  \<open>searched_player\<close>, where the invariant holds, plays \<open>song_A\<close>, which the view does not
  show, and ends at index \<open>-1\<close>.
\<close>

theorem session_invariant_counterexample:
  "\<not> session_invariant (snd (handleWindowFocus 1700000299000
        (loaded_player [song_A, song_B] (snapshot_storage ''b'')))) \<and>
   likedSongs (toggleSongLike ''a'' (loaded_player [song_A, song_B] empty_storage)) =
     [song_A] \<and>
   \<not> session_invariant (playSong song_A
       (handleSearch ascii_trim ascii_toLowerCase ''beta''
          (toggleSongLike ''a'' (loaded_player [song_A, song_B] empty_storage)))) \<and>
   session_invariant searched_player \<and>
   map_sum id currentSong (previousSong searched_player) = Inr (Some song_A) \<and>
   map_sum id currentPlaylist (previousSong searched_player) = Inr [song_C] \<and>
   map_sum id currentIndex (previousSong searched_player) = Inr (- 1) \<and>
   map_sum id session_invariant (previousSong searched_player) = Inr False"
  by (simp add: handleWindowFocus_def resumePlaybackIfNeeded_def example_defs
      session_invariant_def at_index_def handleSearch_def playSong_def activeView_def
      ascii_defs sublist_code prefix_code toggleSongLike_def saveData_def
      previousSong_def signed_modulo_int_def)

text \<open>
  Claim C2, amended. The invariant says: when there is a current song, the current index is
  a position of the current playlist and the song there is the current song. After
  \<open>playSong song\<close> the current song is \<open>song\<close>, and the invariant holds exactly when \<open>song\<close>
  is the first song of the active view with its id; so it holds for every song of the
  active view when the ids in the view are pairwise distinct. On an empty current playlist
  \<open>nextSong\<close> and \<open>previousSong\<close> change nothing. On a non-empty one, from an index of at
  least \<open>-1\<close>, the song at the new index becomes the current song, and the invariant holds
  afterwards exactly when that song is the first song of the active view with its id; so
  it holds when the current playlist is the active view, with pairwise distinct ids and
  the index in range.
\<close>

theorem session_invariant_after_play:
  "(session_invariant st \<longleftrightarrow>
      (case currentSong st of
         None \<Rightarrow> True
       | Some cur \<Rightarrow>
           0 \<le> currentIndex st \<and> currentIndex st < int (length (currentPlaylist st)) \<and>
           currentPlaylist st ! nat (currentIndex st) = cur)) \<and>
   currentSong (playSong song st) = Some song \<and>
   (session_invariant (playSong song st) \<longleftrightarrow>
      find (\<lambda>s. s_id s = s_id song) (activeView st) = Some song) \<and>
   (distinct (map s_id (activeView st)) \<and> song \<in> set (activeView st) \<longrightarrow>
      session_invariant (playSong song st)) \<and>
   (currentPlaylist st = [] \<longrightarrow> nextSong st = Inr st \<and> previousSong st = Inr st) \<and>
   (currentPlaylist st \<noteq> [] \<and> - 1 \<le> currentIndex st \<longrightarrow>
      (\<exists>st'. nextSong st = Inr st' \<and>
         currentSong st' =
           Some (currentPlaylist st !
                   nat ((currentIndex st + 1) smod int (length (currentPlaylist st)))) \<and>
         (session_invariant st' \<longleftrightarrow>
            find (\<lambda>s. s_id s = s_id (currentPlaylist st !
                   nat ((currentIndex st + 1) smod int (length (currentPlaylist st)))))
              (activeView st) =
            Some (currentPlaylist st !
                   nat ((currentIndex st + 1) smod int (length (currentPlaylist st)))))) \<and>
      (\<exists>st'. previousSong st = Inr st' \<and>
         currentSong st' =
           Some (currentPlaylist st !
                   nat ((currentIndex st - 1 + int (length (currentPlaylist st))) smod
                        int (length (currentPlaylist st)))) \<and>
         (session_invariant st' \<longleftrightarrow>
            find (\<lambda>s. s_id s = s_id (currentPlaylist st !
                   nat ((currentIndex st - 1 + int (length (currentPlaylist st))) smod
                        int (length (currentPlaylist st)))))
              (activeView st) =
            Some (currentPlaylist st !
                   nat ((currentIndex st - 1 + int (length (currentPlaylist st))) smod
                        int (length (currentPlaylist st))))))) \<and>
   (ring_ready st \<longrightarrow>
      (\<exists>st'. nextSong st = Inr st' \<and> currentSong st' \<noteq> None \<and> session_invariant st') \<and>
      (\<exists>st'. previousSong st = Inr st' \<and> currentSong st' \<noteq> None \<and>
         session_invariant st'))"
proof (intro conjI impI)
  show "session_invariant st \<longleftrightarrow>
      (case currentSong st of
         None \<Rightarrow> True
       | Some cur \<Rightarrow>
           0 \<le> currentIndex st \<and> currentIndex st < int (length (currentPlaylist st)) \<and>
           currentPlaylist st ! nat (currentIndex st) = cur)"
    by (rule session_invariant_unfold)
  show "currentSong (playSong song st) = Some song"
    by simp
  show "session_invariant (playSong song st) \<longleftrightarrow>
      find (\<lambda>s. s_id s = s_id song) (activeView st) = Some song"
    by (rule playSong_invariant_iff)
  show "session_invariant (playSong song st)"
    if "distinct (map s_id (activeView st)) \<and> song \<in> set (activeView st)"
    using that by (simp add: playSong_invariant_view)
  show "nextSong st = Inr st" if "currentPlaylist st = []"
    using that by (rule nextSong_empty)
  show "previousSong st = Inr st" if "currentPlaylist st = []"
    using that by (rule previousSong_empty)
  show "\<exists>st'. nextSong st = Inr st' \<and>
         currentSong st' =
           Some (currentPlaylist st !
                   nat ((currentIndex st + 1) smod int (length (currentPlaylist st)))) \<and>
         (session_invariant st' \<longleftrightarrow>
            find (\<lambda>s. s_id s = s_id (currentPlaylist st !
                   nat ((currentIndex st + 1) smod int (length (currentPlaylist st)))))
              (activeView st) =
            Some (currentPlaylist st !
                   nat ((currentIndex st + 1) smod int (length (currentPlaylist st)))))"
    if h: "currentPlaylist st \<noteq> [] \<and> - 1 \<le> currentIndex st"
    using h by (intro nextSong_invariant_iff) simp_all
  show "\<exists>st'. previousSong st = Inr st' \<and>
         currentSong st' =
           Some (currentPlaylist st !
                   nat ((currentIndex st - 1 + int (length (currentPlaylist st))) smod
                        int (length (currentPlaylist st)))) \<and>
         (session_invariant st' \<longleftrightarrow>
            find (\<lambda>s. s_id s = s_id (currentPlaylist st !
                   nat ((currentIndex st - 1 + int (length (currentPlaylist st))) smod
                        int (length (currentPlaylist st)))))
              (activeView st) =
            Some (currentPlaylist st !
                   nat ((currentIndex st - 1 + int (length (currentPlaylist st))) smod
                        int (length (currentPlaylist st)))))"
    if h: "currentPlaylist st \<noteq> [] \<and> - 1 \<le> currentIndex st"
    using h by (intro previousSong_invariant_iff) simp_all
  show "\<exists>st'. nextSong st = Inr st' \<and> currentSong st' \<noteq> None \<and> session_invariant st'"
    if "ring_ready st"
  proof -
    from nextSong_ring [OF that] obtain st' where
      "nextSong st = Inr st'" "ring_ready st'"
      "currentSong st' = Some (currentPlaylist st ! nat (currentIndex st'))"
      "currentPlaylist st' = currentPlaylist st"
      by blast
    then show ?thesis using ring_ready_invariant [of st'] by simp
  qed
  show "\<exists>st'. previousSong st = Inr st' \<and> currentSong st' \<noteq> None \<and> session_invariant st'"
    if "ring_ready st"
  proof -
    from previousSong_ring [OF that] obtain st' where
      "previousSong st = Inr st'" "ring_ready st'"
      "currentSong st' = Some (currentPlaylist st ! nat (currentIndex st'))"
      "currentPlaylist st' = currentPlaylist st"
      by blast
    then show ?thesis using ring_ready_invariant [of st'] by simp
  qed
qed

lemma played_B_ring_ready:
  "ring_ready (playSong song_B (loaded_player [song_A, song_B, song_C] empty_storage))"
  by (simp add: ring_ready_def playSong_def activeView_def example_defs)

theorem session_invariant_after_play_witness:
  "find (\<lambda>s. s_id s = s_id song_B)
     (activeView (loaded_player [song_A, song_B, song_C] empty_storage)) = Some song_B \<and>
   distinct (map s_id (activeView (loaded_player [song_A, song_B, song_C] empty_storage))) \<and>
   song_B \<in> set (activeView (loaded_player [song_A, song_B, song_C] empty_storage)) \<and>
   currentSong (playSong song_B (loaded_player [song_A, song_B, song_C] empty_storage)) =
     Some song_B \<and>
   currentIndex (playSong song_B (loaded_player [song_A, song_B, song_C] empty_storage)) = 1 \<and>
   session_invariant (playSong song_B (loaded_player [song_A, song_B, song_C] empty_storage)) \<and>
   ring_ready (playSong song_B (loaded_player [song_A, song_B, song_C] empty_storage)) \<and>
   map_sum id currentSong
     (nextSong (playSong song_B (loaded_player [song_A, song_B, song_C] empty_storage))) =
     Inr (Some song_C) \<and>
   map_sum id session_invariant
     (nextSong (playSong song_B (loaded_player [song_A, song_B, song_C] empty_storage))) =
     Inr True \<and>
   map_sum id session_invariant
     (previousSong (playSong song_B (loaded_player [song_A, song_B, song_C] empty_storage))) =
     Inr True \<and>
   currentPlaylist searched_player \<noteq> [] \<and> - 1 \<le> currentIndex searched_player \<and>
   map_sum id currentSong (nextSong searched_player) = Inr (Some song_C) \<and>
   map_sum id session_invariant (nextSong searched_player) = Inr True \<and>
   map_sum id session_invariant (previousSong searched_player) = Inr False \<and>
   currentPlaylist (loaded_player [] empty_storage) = [] \<and>
   nextSong (loaded_player [] empty_storage) = Inr (loaded_player [] empty_storage)"
  using session_invariant_after_play
    [of "loaded_player [song_A, song_B, song_C] empty_storage" song_B]
    session_invariant_after_play
    [of "playSong song_B (loaded_player [song_A, song_B, song_C] empty_storage)" song_B]
    session_invariant_after_play [of searched_player song_B]
    session_invariant_after_play [of "loaded_player [] empty_storage" song_B]
    played_B_ring_ready
  by (simp add: session_invariant_def ring_ready_def nextSong_def previousSong_def
      playSong_def activeView_def at_index_def signed_modulo_int_def Let_def example_defs
      handleSearch_def ascii_defs sublist_code prefix_code)

section \<open>Next and previous\<close>

text \<open>
  Claim C3, as stated, fails: \<open>nextSong\<close> hands the song at the new index to \<open>playSong\<close>,
  which takes playlist and index from the view of that moment. In \<open>searched_player\<close> the
  current playlist has three songs and the index is 1; the view shows \<open>song_C\<close> only. One
  \<open>nextSong\<close> ends at index 0 (not 2), and so do three of them (not at 1).
\<close>

theorem nextSong_after_search_counterexample:
  "currentPlaylist searched_player = [song_A, song_B, song_C] \<and>
   currentIndex searched_player = 1 \<and>
   map_sum id currentIndex (nextSong searched_player) = Inr 0 \<and>
   map_sum id currentPlaylist (nextSong searched_player) = Inr [song_C] \<and>
   map_sum id currentIndex (repeated 3 nextSong searched_player) = Inr 0"
  by (simp add: example_defs handleSearch_def ascii_defs sublist_code prefix_code
      nextSong_def playSong_def activeView_def at_index_def signed_modulo_int_def
      eval_nat_numeral)

lemma ring_full_turn:
  assumes "ring_ready st"
  shows "(currentIndex st + int (length (currentPlaylist st))) mod
           int (length (currentPlaylist st)) = currentIndex st"
    and "(currentIndex st - int (length (currentPlaylist st))) mod
           int (length (currentPlaylist st)) = currentIndex st"
  using ring_readyD(4,5) [OF assms] by simp_all

text \<open>
  Claim C3, amended. On an empty current playlist \<open>nextSong\<close> and \<open>previousSong\<close> change
  nothing. On a non-empty one of length \<open>n\<close>, from an index \<open>i\<close> of at least \<open>-1\<close>, they
  set the index to \<open>(i + 1) % n\<close> and \<open>(i - 1 + n) % n\<close> and call \<open>playSong\<close> with the song
  at that position. When moreover the current playlist is the active view, its ids are
  pairwise distinct and \<open>i\<close> is a position of it, the index after the call is
  \<open>(i + 1) mod n\<close> and \<open>(i - 1 + n) mod n\<close>, the song there is the current song, the playlist
  is the same, and \<open>n\<close> calls of either operation lead back to index \<open>i\<close>.
\<close>

theorem ring_navigation:
  "(currentPlaylist st = [] \<longrightarrow> nextSong st = Inr st \<and> previousSong st = Inr st) \<and>
   (currentPlaylist st \<noteq> [] \<and> - 1 \<le> currentIndex st \<longrightarrow>
      nextSong st =
        Inr (playSong
              (currentPlaylist st !
                 nat ((currentIndex st + 1) smod int (length (currentPlaylist st))))
              (st\<lparr>currentIndex :=
                   (currentIndex st + 1) smod int (length (currentPlaylist st))\<rparr>)) \<and>
      previousSong st =
        Inr (playSong
              (currentPlaylist st !
                 nat ((currentIndex st - 1 + int (length (currentPlaylist st))) smod
                      int (length (currentPlaylist st))))
              (st\<lparr>currentIndex :=
                   (currentIndex st - 1 + int (length (currentPlaylist st))) smod
                   int (length (currentPlaylist st))\<rparr>))) \<and>
   (ring_ready st \<longrightarrow>
      (\<exists>st'. nextSong st = Inr st' \<and>
         currentIndex st' = (currentIndex st + 1) mod int (length (currentPlaylist st)) \<and>
         currentSong st' = Some (currentPlaylist st ! nat (currentIndex st')) \<and>
         currentPlaylist st' = currentPlaylist st) \<and>
      (\<exists>st'. previousSong st = Inr st' \<and>
         currentIndex st' =
           (currentIndex st - 1 + int (length (currentPlaylist st))) mod
           int (length (currentPlaylist st)) \<and>
         currentSong st' = Some (currentPlaylist st ! nat (currentIndex st')) \<and>
         currentPlaylist st' = currentPlaylist st) \<and>
      (\<exists>st'. repeated (length (currentPlaylist st)) nextSong st = Inr st' \<and>
         currentIndex st' = currentIndex st) \<and>
      (\<exists>st'. repeated (length (currentPlaylist st)) previousSong st = Inr st' \<and>
         currentIndex st' = currentIndex st))"
proof (intro conjI impI)
  show "nextSong st = Inr st" if "currentPlaylist st = []"
    using that by (rule nextSong_empty)
  show "previousSong st = Inr st" if "currentPlaylist st = []"
    using that by (rule previousSong_empty)
next
  assume h: "currentPlaylist st \<noteq> [] \<and> - 1 \<le> currentIndex st"
  then have n: "0 < int (length (currentPlaylist st))" by simp
  show "nextSong st =
        Inr (playSong
              (currentPlaylist st !
                 nat ((currentIndex st + 1) smod int (length (currentPlaylist st))))
              (st\<lparr>currentIndex :=
                   (currentIndex st + 1) smod int (length (currentPlaylist st))\<rparr>))"
    using h nextSong_plays [of st] smod_next [of "currentIndex st", OF _ n] by simp
  show "previousSong st =
        Inr (playSong
              (currentPlaylist st !
                 nat ((currentIndex st - 1 + int (length (currentPlaylist st))) smod
                      int (length (currentPlaylist st))))
              (st\<lparr>currentIndex :=
                   (currentIndex st - 1 + int (length (currentPlaylist st))) smod
                   int (length (currentPlaylist st))\<rparr>))"
    using h previousSong_plays [of st] smod_prev [of "currentIndex st", OF _ n] by simp
next
  assume r: "ring_ready st"
  show "\<exists>st'. nextSong st = Inr st' \<and>
         currentIndex st' = (currentIndex st + 1) mod int (length (currentPlaylist st)) \<and>
         currentSong st' = Some (currentPlaylist st ! nat (currentIndex st')) \<and>
         currentPlaylist st' = currentPlaylist st"
    using nextSong_ring [OF r] by blast
  show "\<exists>st'. previousSong st = Inr st' \<and>
         currentIndex st' =
           (currentIndex st - 1 + int (length (currentPlaylist st))) mod
           int (length (currentPlaylist st)) \<and>
         currentSong st' = Some (currentPlaylist st ! nat (currentIndex st')) \<and>
         currentPlaylist st' = currentPlaylist st"
    using previousSong_ring [OF r] by blast
  show "\<exists>st'. repeated (length (currentPlaylist st)) nextSong st = Inr st' \<and>
         currentIndex st' = currentIndex st"
    using repeated_nextSong [OF r, of "length (currentPlaylist st)"] ring_full_turn(1) [OF r]
    by auto
  show "\<exists>st'. repeated (length (currentPlaylist st)) previousSong st = Inr st' \<and>
         currentIndex st' = currentIndex st"
    using repeated_previousSong [OF r, of "length (currentPlaylist st)"]
      ring_full_turn(2) [OF r]
    by auto
qed

lemma played_A_ring_ready:
  "ring_ready (playSong song_A (loaded_player [song_A, song_B, song_C] empty_storage))"
  "ring_ready (playSong song_A (loaded_player [song_A] empty_storage))"
  by (simp_all add: ring_ready_def playSong_def activeView_def example_defs)

theorem ring_navigation_witness:
  "ring_ready (playSong song_A (loaded_player [song_A, song_B, song_C] empty_storage)) \<and>
   currentIndex (playSong song_A (loaded_player [song_A, song_B, song_C] empty_storage)) = 0 \<and>
   map_sum id currentIndex (repeated 1 nextSong
     (playSong song_A (loaded_player [song_A, song_B, song_C] empty_storage))) = Inr 1 \<and>
   map_sum id currentIndex (repeated 2 nextSong
     (playSong song_A (loaded_player [song_A, song_B, song_C] empty_storage))) = Inr 2 \<and>
   map_sum id currentIndex (repeated 3 nextSong
     (playSong song_A (loaded_player [song_A, song_B, song_C] empty_storage))) = Inr 0 \<and>
   map_sum id currentSong (nextSong
     (playSong song_A (loaded_player [song_A, song_B, song_C] empty_storage))) =
     Inr (Some song_B) \<and>
   map_sum id currentIndex (previousSong
     (playSong song_A (loaded_player [song_A, song_B, song_C] empty_storage))) = Inr 2 \<and>
   ring_ready (playSong song_A (loaded_player [song_A] empty_storage)) \<and>
   map_sum id currentIndex (nextSong
     (playSong song_A (loaded_player [song_A] empty_storage))) = Inr 0 \<and>
   map_sum id currentSong (nextSong
     (playSong song_A (loaded_player [song_A] empty_storage))) = Inr (Some song_A) \<and>
   map_sum id currentIndex (previousSong
     (playSong song_A (loaded_player [song_A] empty_storage))) = Inr 0 \<and>
   currentPlaylist (loaded_player [] empty_storage) = [] \<and>
   nextSong (loaded_player [] empty_storage) = Inr (loaded_player [] empty_storage) \<and>
   previousSong (loaded_player [] empty_storage) = Inr (loaded_player [] empty_storage)"
  using ring_navigation [of "playSong song_A (loaded_player [song_A, song_B, song_C] empty_storage)"]
    ring_navigation [of "playSong song_A (loaded_player [song_A] empty_storage)"]
    ring_navigation [of "loaded_player [] empty_storage"]
    played_A_ring_ready
  by (simp add: nextSong_def previousSong_def playSong_def activeView_def at_index_def
      signed_modulo_int_def Let_def eval_nat_numeral example_defs)

section \<open>Resumption from the snapshot\<close>

lemma find_member: "find P xs = Some x \<Longrightarrow> x \<in> set xs"
  by (auto simp: find_Some_iff)

lemma focus_is_resume: "handleWindowFocus now st = resumePlaybackIfNeeded now st"
  by (simp add: handleWindowFocus_def resumePlaybackIfNeeded_def)

lemma resume_not_ready:
  "\<not> songsLoaded st \<or> songs st = [] \<or>
   groovePlaybackState (localStorage st) = Missing \<or>
   groovePlaybackState (localStorage st) = Malformed \<Longrightarrow>
   resumePlaybackIfNeeded now st = (NoResume, st)"
  by (auto simp: resumePlaybackIfNeeded_def)

lemma resume_stale:
  "groovePlaybackState (localStorage st) = Stored state \<Longrightarrow>
   \<not> saved_isPlaying state \<or> 300000 \<le> now - saved_timestamp state \<Longrightarrow>
   resumePlaybackIfNeeded now st = (NoResume, st)"
  by (auto simp: resumePlaybackIfNeeded_def Let_def)

lemma resume_other_song:
  assumes "songsLoaded st" "songs st \<noteq> []"
    and "groovePlaybackState (localStorage st) = Stored state"
    and "saved_isPlaying state" "now - saved_timestamp state < 300000"
    and "find (\<lambda>s. s_id s = saved_songId state) (songs st) = Some song"
    and "case currentSong st of None \<Rightarrow> True | Some cur \<Rightarrow> s_id cur \<noteq> s_id song"
  shows "resumePlaybackIfNeeded now st =
    (if 0 \<le> (if saved_volume state = 0 then 1 else saved_volume state) \<and>
        (if saved_volume state = 0 then 1 else saved_volume state) \<le> 1
     then (LoadAndPlay song (saved_currentTime state),
           st\<lparr>currentSong := Some song,
              audio := (audio st)
                \<lparr>src := audioSrc song, paused := True, currentTime := 0,
                 volume := (if saved_volume state = 0 then 1 else saved_volume state)\<rparr>\<rparr>)
     else (NoResume,
           st\<lparr>currentSong := Some song,
              audio := (audio st)
                \<lparr>src := audioSrc song, paused := True, currentTime := 0\<rparr>\<rparr>))"
  using assms by (simp add: resumePlaybackIfNeeded_def audio_set_src_def Let_def)

lemma resume_same_song:
  assumes "songsLoaded st" "songs st \<noteq> []"
    and "groovePlaybackState (localStorage st) = Stored state"
    and "saved_isPlaying state" "now - saved_timestamp state < 300000"
    and "\<not> (\<exists>song. find (\<lambda>s. s_id s = saved_songId state) (songs st) = Some song \<and>
            (case currentSong st of None \<Rightarrow> True | Some cur \<Rightarrow> s_id cur \<noteq> s_id song))"
  shows "resumePlaybackIfNeeded now st =
    (if currentSong st \<noteq> None \<and> paused (audio st) \<and> isPlaying st
     then (PlayCurrent, st\<lparr>audio := audio_play (audio st)\<rparr>)
     else (NoResume, st))"
proof (cases "find (\<lambda>s. s_id s = saved_songId state) (songs st)")
  case None
  with assms show ?thesis by (simp add: resumePlaybackIfNeeded_def Let_def)
next
  case (Some song)
  with assms(6) have
    "\<not> (case currentSong st of None \<Rightarrow> True | Some cur \<Rightarrow> s_id cur \<noteq> s_id song)"
    by simp
  with Some assms(1-5) show ?thesis by (simp add: resumePlaybackIfNeeded_def Let_def)
qed

text \<open>
  When the method asks the element to play: the four conditions on catalog and snapshot,
  and then either the snapshot's song is another song than the current one and the stored
  volume is a volume, or it is not another song and the current song stands paused while
  the player counts as playing.
\<close>

lemma resume_attempted_iff:
  "fst (resumePlaybackIfNeeded now st) \<noteq> NoResume \<longleftrightarrow>
     songsLoaded st \<and> songs st \<noteq> [] \<and>
     (\<exists>state. groovePlaybackState (localStorage st) = Stored state \<and>
        saved_isPlaying state \<and> now - saved_timestamp state < 300000 \<and>
        ((\<exists>song. find (\<lambda>s. s_id s = saved_songId state) (songs st) = Some song \<and>
            (case currentSong st of None \<Rightarrow> True | Some cur \<Rightarrow> s_id cur \<noteq> s_id song) \<and>
            0 \<le> (if saved_volume state = 0 then 1 else saved_volume state) \<and>
            (if saved_volume state = 0 then 1 else saved_volume state) \<le> 1) \<or>
         (\<not> (\<exists>song. find (\<lambda>s. s_id s = saved_songId state) (songs st) = Some song \<and>
              (case currentSong st of None \<Rightarrow> True | Some cur \<Rightarrow> s_id cur \<noteq> s_id song)) \<and>
          currentSong st \<noteq> None \<and> paused (audio st) \<and> isPlaying st)))"
  (is "?L \<longleftrightarrow> ?R")
proof (cases "songsLoaded st \<and> songs st \<noteq> []")
  case False
  then have "resumePlaybackIfNeeded now st = (NoResume, st)"
    by (intro resume_not_ready) auto
  with False show ?thesis by auto
next
  case ready: True
  show ?thesis
  proof (cases "groovePlaybackState (localStorage st)")
    case Missing
    then have "resumePlaybackIfNeeded now st = (NoResume, st)"
      by (intro resume_not_ready) simp
    with Missing show ?thesis by simp
  next
    case Malformed
    then have "resumePlaybackIfNeeded now st = (NoResume, st)"
      by (intro resume_not_ready) simp
    with Malformed show ?thesis by simp
  next
    case (Stored state)
    show ?thesis
    proof (cases "saved_isPlaying state \<and> now - saved_timestamp state < 300000")
      case False
      then have "resumePlaybackIfNeeded now st = (NoResume, st)"
        using Stored by (intro resume_stale) auto
      with False Stored show ?thesis by auto
    next
      case fresh: True
      show ?thesis
      proof (cases "\<exists>song. find (\<lambda>s. s_id s = saved_songId state) (songs st) = Some song \<and>
            (case currentSong st of None \<Rightarrow> True | Some cur \<Rightarrow> s_id cur \<noteq> s_id song)")
        case True
        then obtain song where
          song: "find (\<lambda>s. s_id s = saved_songId state) (songs st) = Some song"
            "case currentSong st of None \<Rightarrow> True | Some cur \<Rightarrow> s_id cur \<noteq> s_id song"
          by blast
        have "resumePlaybackIfNeeded now st =
          (if 0 \<le> (if saved_volume state = 0 then 1 else saved_volume state) \<and>
              (if saved_volume state = 0 then 1 else saved_volume state) \<le> 1
           then (LoadAndPlay song (saved_currentTime state),
                 st\<lparr>currentSong := Some song,
                    audio := (audio st)
                      \<lparr>src := audioSrc song, paused := True, currentTime := 0,
                       volume := (if saved_volume state = 0 then 1 else saved_volume state)\<rparr>\<rparr>)
           else (NoResume,
                 st\<lparr>currentSong := Some song,
                    audio := (audio st)
                      \<lparr>src := audioSrc song, paused := True, currentTime := 0\<rparr>\<rparr>))"
          using ready fresh Stored song by (intro resume_other_song) simp_all
        then show ?thesis using ready fresh Stored song True
          by (cases "0 \<le> (if saved_volume state = 0 then 1 else saved_volume state) \<and>
              (if saved_volume state = 0 then 1 else saved_volume state) \<le> 1") auto
      next
        case False
        have "resumePlaybackIfNeeded now st =
          (if currentSong st \<noteq> None \<and> paused (audio st) \<and> isPlaying st
           then (PlayCurrent, st\<lparr>audio := audio_play (audio st)\<rparr>)
           else (NoResume, st))"
          using ready fresh Stored False by (intro resume_same_song) simp_all
        then show ?thesis using ready fresh Stored False
          by (cases "currentSong st \<noteq> None \<and> paused (audio st) \<and> isPlaying st") auto
      qed
    qed
  qed
qed

text \<open>Resumption never touches the current playlist and the current index.\<close>

lemma resume_frame:
  "currentPlaylist (snd (resumePlaybackIfNeeded now st)) = currentPlaylist st \<and>
   currentIndex (snd (resumePlaybackIfNeeded now st)) = currentIndex st"
  by (simp add: resumePlaybackIfNeeded_def Let_def split: item.split option.split)

text \<open>
  Claim C4, as stated, fails in the direction from the three conditions to the attempt.
  In each of three players the snapshot exists, was taken while playing and is 299
  seconds old, and the focus handler asks nothing of the audio element: the catalog is not
  loaded yet; the snapshot's song \<open>zz\<close> is not in the catalog and there is no current song;
  the snapshot's song is the current song and is playing.
\<close>

theorem resume_not_attempted_counterexample:
  "fst (handleWindowFocus 1700000299000
         ((loaded_player [song_A, song_B] (snapshot_storage ''a''))
            \<lparr>songsLoaded := False\<rparr>)) = NoResume \<and>
   fst (handleWindowFocus 1700000299000
         (loaded_player [song_A, song_B] (snapshot_storage ''zz''))) = NoResume \<and>
   fst (handleWindowFocus 1700000299000
         ((loaded_player [song_A, song_B] (snapshot_storage ''a''))
            \<lparr>currentSong := Some song_A, currentPlaylist := [song_A, song_B],
             isPlaying := True,
             audio := new_Audio\<lparr>src := ''a.mp3'', paused := False\<rparr>\<rparr>)) = NoResume"
  by (simp add: handleWindowFocus_def resumePlaybackIfNeeded_def example_defs)

text \<open>
  Claim C4, amended. The focus handler does what \<open>resumePlaybackIfNeeded\<close> does, and that
  is fixed case by case.
  \<^item> It asks the audio element to play exactly when the catalog is loaded and not empty, a
    snapshot is stored and parses, the snapshot was taken while playing, it is less than
    300000 ms old, and either its song is in the catalog, is not the current song and the
    stored volume (0 read as 1) lies between 0 and 1, or its song is not such a song and
    there is a current song whose audio is paused although the player counts as playing.
  \<^item> While the catalog is not loaded or is empty, without a snapshot that parses, and with
    a snapshot that was not taken while playing or is 300000 ms old or older, the player
    stays as it is.
  \<^item> Otherwise, when the snapshot's song is in the catalog and is not the current song, it
    becomes the current song and the audio source becomes its \<open>audioSrc\<close>, which leaves
    the element paused at position 0; with a stored volume between 0 and 1 the volume is
    set and the handler for the saved position is registered; with another stored volume
    nothing more happens.
  \<^item> Otherwise, when there is a current song whose audio is paused although the player
    counts as playing, \<open>play()\<close> is called on the element and nothing else changes; else
    the player stays as it is.
  \<^item> The registered handler seeks to the smaller of saved position and duration and calls
    \<open>play()\<close>, which ends the pause of the element when the platform allows it.
\<close>

theorem resumePlaybackIfNeeded_gate:
  "handleWindowFocus now st = resumePlaybackIfNeeded now st \<and>
   (fst (resumePlaybackIfNeeded now st) \<noteq> NoResume \<longleftrightarrow>
     songsLoaded st \<and> songs st \<noteq> [] \<and>
     (\<exists>state. groovePlaybackState (localStorage st) = Stored state \<and>
        saved_isPlaying state \<and> now - saved_timestamp state < 300000 \<and>
        ((\<exists>song. find (\<lambda>s. s_id s = saved_songId state) (songs st) = Some song \<and>
            (case currentSong st of None \<Rightarrow> True | Some cur \<Rightarrow> s_id cur \<noteq> s_id song) \<and>
            0 \<le> (if saved_volume state = 0 then 1 else saved_volume state) \<and>
            (if saved_volume state = 0 then 1 else saved_volume state) \<le> 1) \<or>
         (\<not> (\<exists>song. find (\<lambda>s. s_id s = saved_songId state) (songs st) = Some song \<and>
              (case currentSong st of None \<Rightarrow> True | Some cur \<Rightarrow> s_id cur \<noteq> s_id song)) \<and>
          currentSong st \<noteq> None \<and> paused (audio st) \<and> isPlaying st)))) \<and>
   (\<not> songsLoaded st \<or> songs st = [] \<or>
    groovePlaybackState (localStorage st) = Missing \<or>
    groovePlaybackState (localStorage st) = Malformed \<longrightarrow>
      resumePlaybackIfNeeded now st = (NoResume, st)) \<and>
   (groovePlaybackState (localStorage st) = Stored state \<and>
    (\<not> saved_isPlaying state \<or> 300000 \<le> now - saved_timestamp state) \<longrightarrow>
      resumePlaybackIfNeeded now st = (NoResume, st)) \<and>
   (songsLoaded st \<and> songs st \<noteq> [] \<and>
    groovePlaybackState (localStorage st) = Stored state \<and>
    saved_isPlaying state \<and> now - saved_timestamp state < 300000 \<and>
    find (\<lambda>s. s_id s = saved_songId state) (songs st) = Some song \<and>
    (case currentSong st of None \<Rightarrow> True | Some cur \<Rightarrow> s_id cur \<noteq> s_id song) \<longrightarrow>
      resumePlaybackIfNeeded now st =
        (if 0 \<le> (if saved_volume state = 0 then 1 else saved_volume state) \<and>
            (if saved_volume state = 0 then 1 else saved_volume state) \<le> 1
         then (LoadAndPlay song (saved_currentTime state),
               st\<lparr>currentSong := Some song,
                  audio := (audio st)
                    \<lparr>src := audioSrc song, paused := True, currentTime := 0,
                     volume := (if saved_volume state = 0 then 1 else saved_volume state)\<rparr>\<rparr>)
         else (NoResume,
               st\<lparr>currentSong := Some song,
                  audio := (audio st)
                    \<lparr>src := audioSrc song, paused := True, currentTime := 0\<rparr>\<rparr>))) \<and>
   (songsLoaded st \<and> songs st \<noteq> [] \<and>
    groovePlaybackState (localStorage st) = Stored state \<and>
    saved_isPlaying state \<and> now - saved_timestamp state < 300000 \<and>
    \<not> (\<exists>song. find (\<lambda>s. s_id s = saved_songId state) (songs st) = Some song \<and>
          (case currentSong st of None \<Rightarrow> True | Some cur \<Rightarrow> s_id cur \<noteq> s_id song)) \<longrightarrow>
      resumePlaybackIfNeeded now st =
        (if currentSong st \<noteq> None \<and> paused (audio st) \<and> isPlaying st
         then (PlayCurrent,
               st\<lparr>audio := (if allowedToPlay (audio st) then (audio st)\<lparr>paused := False\<rparr>
                             else audio st)\<rparr>)
         else (NoResume, st))) \<and>
   handleLoadedMetadata savedTime duration st =
     st\<lparr>audio :=
          (if allowedToPlay (audio st)
           then (audio st)\<lparr>currentTime := min savedTime duration, paused := False\<rparr>
           else (audio st)\<lparr>currentTime := min savedTime duration\<rparr>)\<rparr>"
proof (intro conjI impI)
  show "handleWindowFocus now st = resumePlaybackIfNeeded now st"
    by (rule focus_is_resume)
  show "fst (resumePlaybackIfNeeded now st) \<noteq> NoResume \<longleftrightarrow>
     songsLoaded st \<and> songs st \<noteq> [] \<and>
     (\<exists>state. groovePlaybackState (localStorage st) = Stored state \<and>
        saved_isPlaying state \<and> now - saved_timestamp state < 300000 \<and>
        ((\<exists>song. find (\<lambda>s. s_id s = saved_songId state) (songs st) = Some song \<and>
            (case currentSong st of None \<Rightarrow> True | Some cur \<Rightarrow> s_id cur \<noteq> s_id song) \<and>
            0 \<le> (if saved_volume state = 0 then 1 else saved_volume state) \<and>
            (if saved_volume state = 0 then 1 else saved_volume state) \<le> 1) \<or>
         (\<not> (\<exists>song. find (\<lambda>s. s_id s = saved_songId state) (songs st) = Some song \<and>
              (case currentSong st of None \<Rightarrow> True | Some cur \<Rightarrow> s_id cur \<noteq> s_id song)) \<and>
          currentSong st \<noteq> None \<and> paused (audio st) \<and> isPlaying st)))"
    by (rule resume_attempted_iff)
  show "resumePlaybackIfNeeded now st = (NoResume, st)"
    if "\<not> songsLoaded st \<or> songs st = [] \<or>
      groovePlaybackState (localStorage st) = Missing \<or>
      groovePlaybackState (localStorage st) = Malformed"
    using that by (rule resume_not_ready)
  show "resumePlaybackIfNeeded now st = (NoResume, st)"
    if "groovePlaybackState (localStorage st) = Stored state \<and>
      (\<not> saved_isPlaying state \<or> 300000 \<le> now - saved_timestamp state)"
    using that by (intro resume_stale [of st state]) simp_all
  show "resumePlaybackIfNeeded now st =
        (if 0 \<le> (if saved_volume state = 0 then 1 else saved_volume state) \<and>
            (if saved_volume state = 0 then 1 else saved_volume state) \<le> 1
         then (LoadAndPlay song (saved_currentTime state),
               st\<lparr>currentSong := Some song,
                  audio := (audio st)
                    \<lparr>src := audioSrc song, paused := True, currentTime := 0,
                     volume := (if saved_volume state = 0 then 1 else saved_volume state)\<rparr>\<rparr>)
         else (NoResume,
               st\<lparr>currentSong := Some song,
                  audio := (audio st)
                    \<lparr>src := audioSrc song, paused := True, currentTime := 0\<rparr>\<rparr>))"
    if "songsLoaded st \<and> songs st \<noteq> [] \<and>
      groovePlaybackState (localStorage st) = Stored state \<and>
      saved_isPlaying state \<and> now - saved_timestamp state < 300000 \<and>
      find (\<lambda>s. s_id s = saved_songId state) (songs st) = Some song \<and>
      (case currentSong st of None \<Rightarrow> True | Some cur \<Rightarrow> s_id cur \<noteq> s_id song)"
    using that by (intro resume_other_song) simp_all
  show "resumePlaybackIfNeeded now st =
        (if currentSong st \<noteq> None \<and> paused (audio st) \<and> isPlaying st
         then (PlayCurrent,
               st\<lparr>audio := (if allowedToPlay (audio st) then (audio st)\<lparr>paused := False\<rparr>
                             else audio st)\<rparr>)
         else (NoResume, st))"
    if h: "songsLoaded st \<and> songs st \<noteq> [] \<and>
      groovePlaybackState (localStorage st) = Stored state \<and>
      saved_isPlaying state \<and> now - saved_timestamp state < 300000 \<and>
      \<not> (\<exists>song. find (\<lambda>s. s_id s = saved_songId state) (songs st) = Some song \<and>
            (case currentSong st of None \<Rightarrow> True | Some cur \<Rightarrow> s_id cur \<noteq> s_id song))"
  proof -
    have "resumePlaybackIfNeeded now st =
        (if currentSong st \<noteq> None \<and> paused (audio st) \<and> isPlaying st
         then (PlayCurrent, st\<lparr>audio := audio_play (audio st)\<rparr>)
         else (NoResume, st))"
      using h by (intro resume_same_song [of st state]) simp_all
    then show ?thesis by (simp add: audio_play_def)
  qed
  show "handleLoadedMetadata savedTime duration st =
     st\<lparr>audio :=
          (if allowedToPlay (audio st)
           then (audio st)\<lparr>currentTime := min savedTime duration, paused := False\<rparr>
           else (audio st)\<lparr>currentTime := min savedTime duration\<rparr>)\<rparr>"
    by (simp add: handleLoadedMetadata_def audio_play_def)
qed

theorem resumePlaybackIfNeeded_gate_witness:
  "handleWindowFocus 1700000299000 (loaded_player [song_A, song_B] (snapshot_storage ''b'')) =
     (LoadAndPlay song_B 12,
      (loaded_player [song_A, song_B] (snapshot_storage ''b''))
         \<lparr>currentSong := Some song_B, audio := new_Audio\<lparr>src := ''b.mp3''\<rparr>\<rparr>) \<and>
   handleWindowFocus 1700000301000 (loaded_player [song_A, song_B] (snapshot_storage ''b'')) =
     (NoResume, loaded_player [song_A, song_B] (snapshot_storage ''b'')) \<and>
   handleWindowFocus 1700000300000 (loaded_player [song_A, song_B] (snapshot_storage ''b'')) =
     (NoResume, loaded_player [song_A, song_B] (snapshot_storage ''b'')) \<and>
   groovePlaybackState (localStorage (loaded_player [] (snapshot_storage ''b''))) =
     Stored (recent_snapshot ''b'') \<and>
   handleWindowFocus 1700000299000 (loaded_player [] (snapshot_storage ''b'')) =
     (NoResume, loaded_player [] (snapshot_storage ''b'')) \<and>
   handleWindowFocus 1700000299000
     ((loaded_player [song_A, song_B] (snapshot_storage ''b''))
        \<lparr>currentSong := Some song_B, isPlaying := True,
         audio := new_Audio\<lparr>src := ''b.mp3'', allowedToPlay := True\<rparr>\<rparr>) =
     (PlayCurrent,
      (loaded_player [song_A, song_B] (snapshot_storage ''b''))
        \<lparr>currentSong := Some song_B, isPlaying := True,
         audio := new_Audio\<lparr>src := ''b.mp3'', allowedToPlay := True, paused := False\<rparr>\<rparr>) \<and>
   handleWindowFocus 1700000299000
     ((loaded_player [song_A, song_B] (snapshot_storage ''b''))
        \<lparr>localStorage := empty_storage\<lparr>groovePlaybackState := Stored
           ((recent_snapshot ''b'')\<lparr>saved_volume := 5\<rparr>)\<rparr>\<rparr>) =
     (NoResume,
      (loaded_player [song_A, song_B] (snapshot_storage ''b''))
        \<lparr>localStorage := empty_storage\<lparr>groovePlaybackState := Stored
           ((recent_snapshot ''b'')\<lparr>saved_volume := 5\<rparr>)\<rparr>,
         currentSong := Some song_B, audio := new_Audio\<lparr>src := ''b.mp3''\<rparr>\<rparr>) \<and>
   audio (handleLoadedMetadata 12 200
      ((loaded_player [song_A, song_B] (snapshot_storage ''b''))
         \<lparr>currentSong := Some song_B,
          audio := new_Audio\<lparr>src := ''b.mp3'', allowedToPlay := True\<rparr>\<rparr>)) =
     new_Audio\<lparr>src := ''b.mp3'', allowedToPlay := True, currentTime := 12, paused := False\<rparr>"
  using resumePlaybackIfNeeded_gate
      [of 1700000299000 "loaded_player [song_A, song_B] (snapshot_storage ''b'')"
        "recent_snapshot ''b''" song_B 12 200]
    resumePlaybackIfNeeded_gate
      [of 1700000301000 "loaded_player [song_A, song_B] (snapshot_storage ''b'')"
        "recent_snapshot ''b''" song_B 12 200]
    resumePlaybackIfNeeded_gate
      [of 1700000299000 "loaded_player [] (snapshot_storage ''b'')"
        "recent_snapshot ''b''" song_B 12 200]
    resumePlaybackIfNeeded_gate
      [of 1700000299000
        "(loaded_player [song_A, song_B] (snapshot_storage ''b''))
           \<lparr>currentSong := Some song_B, isPlaying := True,
            audio := new_Audio\<lparr>src := ''b.mp3'', allowedToPlay := True\<rparr>\<rparr>"
        "recent_snapshot ''b''" song_B 12 200]
  by (simp add: handleWindowFocus_def resumePlaybackIfNeeded_def handleLoadedMetadata_def
      audio_play_def audio_set_src_def example_defs)

section \<open>A superseded call of playSong\<close>

text \<open>
  The code that runs when a fetch completes assigns the audio source whatever the current
  song is, and never changes the current song.
\<close>

lemma playSong_async_fetched_src:
  "src (audio (playSong_async_fetched song (Fetched url) st)) = url \<and>
   src (audio (playSong_async_fetched song FetchFailed st)) = audioSrc song \<and>
   currentSong (playSong_async_fetched song r st) = currentSong st"
  by (simp add: playSong_async_fetched_def audio_play_def audio_set_src_def
      split: fetch_result.splits)

text \<open>
  In app.js the source is assigned inside \<open>playSong\<close>; the settling of the promise of
  \<open>audio.play()\<close> changes neither the source nor the current song.
\<close>

lemma playSong_settled_keeps_source:
  "src (audio (playSong_settled now outcome st)) = src (audio st) \<and>
   currentSong (playSong_settled now outcome st) = currentSong st"
  by (simp add: playSong_settled_def savePlaybackState_def
      split: play_outcome.splits option.splits)

text \<open>
  A play that the platform allows: the element is not paused after \<open>playSong\<close>; the
  \<open>play\<close> listener then marks the player as playing, and the snapshot written when the
  promise is fulfilled says so.
\<close>

lemma playSong_allowed_snapshot:
  assumes "allowedToPlay (audio st)"
  shows "\<not> paused (audio (playSong song st))"
    and "isPlaying (audio_onplay now (playSong song st))"
    and "groovePlaybackState (localStorage
           (playSong_settled now' Started (audio_onplay now (playSong song st)))) =
         Stored \<lparr>saved_songId = s_id song, saved_currentTime = 0, saved_isPlaying = True,
                 saved_timestamp = now', saved_volume = volume (audio st)\<rparr>"
  using assms
  by (simp_all add: playSong_def audio_play_def audio_set_src_def audio_onplay_def
      playSong_settled_def savePlaybackState_def)

lemma playSong_after_gesture: "\<not> paused (audio (playSong song (user_gesture st)))"
  by (simp add: playSong_def audio_play_def audio_set_src_def user_gesture_def)

text \<open>
  Claim C1 on part_001: \<open>playSong song_A\<close>, then \<open>playSong song_B\<close> before the fetch for
  \<open>song_A\<close> completes. After the fetch for \<open>song_B\<close> the current song is \<open>song_B\<close> and the
  source is its blob. When the fetch for \<open>song_A\<close> completes afterwards, the current song
  is still \<open>song_B\<close>, and the source is the blob of \<open>song_A\<close>: the late result is not
  discarded.
\<close>

theorem playSong_async_stale_fetch_overwrites:
  "currentSong (fst (run [PlaySong song_A, PlaySong song_B,
        FetchDone song_B (Fetched ''blob:b'')]
      (loaded_player [song_A, song_B] empty_storage))) = Some song_B \<and>
   src (audio (fst (run [PlaySong song_A, PlaySong song_B,
        FetchDone song_B (Fetched ''blob:b'')]
      (loaded_player [song_A, song_B] empty_storage)))) = ''blob:b'' \<and>
   currentSong (fst (run [PlaySong song_A, PlaySong song_B,
        FetchDone song_B (Fetched ''blob:b''), FetchDone song_A (Fetched ''blob:a'')]
      (loaded_player [song_A, song_B] empty_storage))) = Some song_B \<and>
   src (audio (fst (run [PlaySong song_A, PlaySong song_B,
        FetchDone song_B (Fetched ''blob:b''), FetchDone song_A (Fetched ''blob:a'')]
      (loaded_player [song_A, song_B] empty_storage)))) = ''blob:a''"
  by (simp add: run_def playSong_async_begin_def playSong_async_fetched_def activeView_def
      audio_play_def audio_set_src_def example_defs)

section \<open>Start-up with a malformed stored value\<close>

lemma constructor_missing_keys:
  "grooveLikedSongs ls = Missing \<Longrightarrow> groovePlaylists ls = Missing \<Longrightarrow>
   \<exists>st. MusicPlayer_constructor ls = Inr st \<and> likedSongs st = [] \<and> playlists st = []"
  by (simp add: MusicPlayer_constructor_def parse_or_empty_def)

text \<open>
  The example players are what start-up produces: the constructor on a storage without
  liked songs and playlists, then the catalog load and its continuation.
\<close>

lemma loaded_player_startup:
  "grooveLikedSongs ls = Missing \<Longrightarrow> groovePlaylists ls = Missing \<Longrightarrow>
   map_sum id (\<lambda>st. loadSongs_then (loadSongs (Some cat) st)) (MusicPlayer_constructor ls) =
     Inr (loaded_player cat ls)"
  by (simp add: MusicPlayer_constructor_def parse_or_empty_def loadSongs_def
      loadSongs_then_def loaded_player_def)

lemma constructor_throws_iff:
  "MusicPlayer_constructor ls = Inl SyntaxError \<longleftrightarrow>
     grooveLikedSongs ls = Malformed \<or> groovePlaylists ls = Malformed"
  by (auto simp: MusicPlayer_constructor_def parse_or_empty_def split: item.splits)

text \<open>
  Claim C6 on the constructor: with no key stored it returns a player with empty
  collections; with an unparseable text under either key the \<open>SyntaxError\<close> of
  \<open>JSON.parse\<close> leaves the constructor and no player is built.
\<close>

theorem constructor_malformed_storage_throws:
  "map_sum id likedSongs (MusicPlayer_constructor empty_storage) = Inr [] \<and>
   map_sum id playlists (MusicPlayer_constructor empty_storage) = Inr [] \<and>
   MusicPlayer_constructor (empty_storage\<lparr>grooveLikedSongs := Malformed\<rparr>) =
     Inl SyntaxError \<and>
   MusicPlayer_constructor (empty_storage\<lparr>groovePlaylists := Malformed\<rparr>) =
     Inl SyntaxError"
  by (simp add: MusicPlayer_constructor_def parse_or_empty_def empty_storage_def)

end
